theory Spec2Isabelle
  imports Main
begin

section \<open>Data model (internal/models, pkg/scaleway)\<close>

text \<open>
  Go strings are byte sequences and are modelled as \<open>string\<close>. An \<open>error\<close> is the
  message it carries; \<open>fmt.Errorf("prefix: %w", err)\<close> prepends the prefix. A
  \<open>uuid.UUID\<close> is an abstract identity (a natural number), \<open>uuid.Nil\<close> being \<open>0\<close>.
  A \<open>time.Time\<close> is the instant in nanoseconds since the Unix epoch.
\<close>

type_synonym error = string
type_synonym uuid = nat
type_synonym time = int

definition uuid_Nil :: uuid where
  "uuid_Nil = 0"

definition Minute :: int where
  "Minute = 60 * 1000000000"

definition time_zero :: time where
  "time_zero = - 62135596800 * 1000000000"

definition IsZero :: "time \<Rightarrow> bool" where
  "IsZero t = (t = time_zero)"

text \<open>
  Values of Go's \<open>any\<close> that occur in raw payloads and in alert evidence. \<open>ARFC3339 t\<close>
  stands for the string \<open>t.Format(time.RFC3339)\<close>, kept symbolic as the instant that
  was formatted. A \<open>map[string]any\<close> is an association list read with \<open>map_of\<close>.
\<close>

datatype any =
    AString string
  | AInt int
  | AStringList "string list"
  | ARFC3339 time
  | AMap "(string \<times> any) list"
  | AOther nat

type_synonym anymap = "(string \<times> any) list"

fun map_set :: "string \<Rightarrow> any \<Rightarrow> anymap \<Rightarrow> anymap" where
  "map_set k v [] = [(k, v)]"
| "map_set k v ((k', v') # kvs) =
     (if k = k' then (k, v) # kvs else (k', v') # map_set k v kvs)"

record Event =
  ev_ID :: uuid
  ev_EventID :: string
  ev_Raw :: anymap
  ev_EventType :: string
  ev_Actor :: string
  ev_Resource :: string
  ev_IP :: string
  ev_Region :: string
  ev_Timestamp :: time
  ev_IngestFailed :: bool
  ev_CreatedAt :: time

definition SeverityLow :: string where "SeverityLow = ''LOW''"
definition SeverityMedium :: string where "SeverityMedium = ''MEDIUM''"
definition SeverityHigh :: string where "SeverityHigh = ''HIGH''"
definition SeverityCritical :: string where "SeverityCritical = ''CRITICAL''"

definition AlertStatusOpen :: string where "AlertStatusOpen = ''OPEN''"
definition AlertStatusInvestigating :: string where "AlertStatusInvestigating = ''INVESTIGATING''"
definition AlertStatusResolved :: string where "AlertStatusResolved = ''RESOLVED''"
definition AlertStatusFalsePositive :: string where "AlertStatusFalsePositive = ''FALSE_POSITIVE''"

record Alert =
  al_ID :: uuid
  al_EventRefs :: "uuid list"
  al_AlertType :: string
  al_Severity :: string
  al_UserID :: string
  al_Description :: string
  al_Status :: string
  al_Evidence :: anymap
  al_CreatedAt :: time
  al_UpdatedAt :: time

definition ActionTypeLockUser :: string where "ActionTypeLockUser = ''lock_user''"
definition ActionTypeUnlockUser :: string where "ActionTypeUnlockUser = ''unlock_user''"
definition ActionTypeRevokeKey :: string where "ActionTypeRevokeKey = ''revoke_key''"

record RemediationLog =
  rl_ID :: uuid
  rl_AlertID :: uuid
  rl_ActorUser :: string
  rl_ActionType :: string
  rl_Payload :: anymap
  rl_Result :: string
  rl_Timestamp :: time

record AuditEvent =
  ae_ID :: string
  ae_Type :: string
  ae_Actor :: string
  ae_Resource :: string
  ae_IP :: string
  ae_Timestamp :: time
  ae_Source :: string
  ae_Raw :: "anymap option"

record DetectionConfig =
  FailedLoginWindowMin :: int
  FailedLoginThreshold :: int

section \<open>Environment and store\<close>

text \<open>
  What the program cannot decide by itself is a parameter. \<open>db_fault n\<close> is the error of
  the \<open>n\<close>-th statement sent to the database (\<open>None\<close> when it succeeds), \<open>clock n\<close> the
  \<open>n\<close>-th reading of the clock, \<open>marshal_error\<close> the error of \<open>json.Marshal\<close>,
  \<open>uuid_Parse\<close> and \<open>uuid_String\<close> are the functions of the uuid library, \<open>http_events\<close>
  is what \<open>Client.fetchEvents\<close> obtains over the network (by interaction, source and
  \<open>since\<close>) and \<open>http_iam\<close> the error of a mutating request to the IAM API (by
  interaction, operation and subject). The store holds
  the three tables in insertion order, the number of environment interactions made so
  far, and the number of identifiers drawn by \<open>uuid.New()\<close>.
\<close>

record env =
  db_fault :: "nat \<Rightarrow> error option"
  clock :: "nat \<Rightarrow> time"
  marshal_error :: "anymap \<Rightarrow> error option"
  uuid_Parse :: "string \<Rightarrow> uuid option"
  uuid_String :: "uuid \<Rightarrow> string"
  http_events :: "nat \<Rightarrow> string \<Rightarrow> time option \<Rightarrow> AuditEvent list \<times> error option"
  http_iam :: "nat \<Rightarrow> string \<Rightarrow> string \<Rightarrow> error option"

record world =
  events :: "Event list"
  alerts :: "Alert list"
  remediation_logs :: "RemediationLog list"
  next_uuid :: nat
  steps :: nat

definition uuid_New :: "world \<Rightarrow> uuid \<times> world" where
  "uuid_New w = (Suc (next_uuid w), w\<lparr>next_uuid := Suc (next_uuid w)\<rparr>)"

definition time_Now :: "env \<Rightarrow> world \<Rightarrow> time \<times> world" where
  "time_Now e w = (clock e (steps w), w\<lparr>steps := Suc (steps w)\<rparr>)"

text \<open>One statement sent to the database: its fault, if any, and the interaction counted.\<close>

definition db_exec :: "env \<Rightarrow> world \<Rightarrow> error option \<times> world" where
  "db_exec e w = (db_fault e (steps w), w\<lparr>steps := Suc (steps w)\<rparr>)"

section \<open>String helpers (internal/detection/engine.go)\<close>

definition lower_char :: "char \<Rightarrow> char" where
  "lower_char c =
     (case map_of (zip ''ABCDEFGHIJKLMNOPQRSTUVWXYZ'' ''abcdefghijklmnopqrstuvwxyz'') c of
        Some l \<Rightarrow> l
      | None \<Rightarrow> c)"

text \<open>\<open>strings.ToLower\<close>, on the ASCII letters.\<close>

definition ToLower :: "string \<Rightarrow> string" where
  "ToLower s = map lower_char s"

fun HasPrefix :: "string \<Rightarrow> string \<Rightarrow> bool" where
  "HasPrefix s [] = True"
| "HasPrefix [] (p # ps) = False"
| "HasPrefix (c # cs) (p # ps) = (c = p \<and> HasPrefix cs ps)"

fun Contains :: "string \<Rightarrow> string \<Rightarrow> bool" where
  "Contains [] sub = (sub = [])"
| "Contains (c # cs) sub = (HasPrefix (c # cs) sub \<or> Contains cs sub)"

definition contains :: "string \<Rightarrow> string \<Rightarrow> bool" where
  "contains s substr = Contains (ToLower s) (ToLower substr)"


text \<open>\<open>%d\<close> of \<open>fmt.Sprintf\<close>: the decimal digits, with a sign.\<close>

definition digit_char :: "nat \<Rightarrow> char" where
  "digit_char d = ''0123456789'' ! d"

fun itoa_nat :: "nat \<Rightarrow> string" where
  "itoa_nat n = (if n < 10 then [digit_char n] else itoa_nat (n div 10) @ [digit_char (n mod 10)])"

declare itoa_nat.simps [simp del]

definition itoa :: "int \<Rightarrow> string" where
  "itoa i = (if i < 0 then CHR ''-'' # itoa_nat (nat (- i)) else itoa_nat (nat i))"

text \<open>
  A call either returns or panics. A Go function returning \<open>(value, error)\<close> returns
  the pair, the error being \<open>None\<close> for \<open>nil\<close>.
\<close>

datatype 'a outcome = Returned 'a | Panicked

definition DQ :: char where
  "DQ = CHR 0x22"

definition isSpace :: "char \<Rightarrow> bool" where
  "isSpace c = (c \<in> set [CHR 0x09, CHR 0x0A, CHR 0x0B, CHR 0x0C, CHR 0x0D, CHR 0x20])"

text \<open>\<open>strings.TrimSpace\<close>, on the ASCII white space.\<close>

definition TrimSpace :: "string \<Rightarrow> string" where
  "TrimSpace s = rev (dropWhile isSpace (rev (dropWhile isSpace s)))"

definition trimQuotes :: "string \<Rightarrow> string" where
  "trimQuotes s0 =
     (let s = TrimSpace s0 in
      if 2 \<le> length s \<and> hd s = DQ \<and> last s = DQ then butlast (tl s) else s)"

text \<open>
  The loop of \<open>splitArrayString\<close>, with its three variables \<open>result\<close>, \<open>current\<close> and
  \<open>inQuotes\<close>; the empty input is the code after the loop.
\<close>

fun splitArrayString_loop :: "string \<Rightarrow> string list \<Rightarrow> string \<Rightarrow> bool \<Rightarrow> string list" where
  "splitArrayString_loop [] result current inQuotes =
     (if current \<noteq> [] then result @ [current] else result)"
| "splitArrayString_loop (c # cs) result current inQuotes =
     (if c = DQ then splitArrayString_loop cs result (current @ [c]) (\<not> inQuotes)
      else if c = CHR '','' \<and> \<not> inQuotes then
        (if current \<noteq> [] then splitArrayString_loop cs (result @ [current]) [] inQuotes
         else splitArrayString_loop cs result current inQuotes)
      else splitArrayString_loop cs result (current @ [c]) inQuotes)"

definition splitArrayString :: "string \<Rightarrow> string list" where
  "splitArrayString s = splitArrayString_loop s [] [] False"

text \<open>The slice \<open>str[1 : len(str)-1]\<close>, which panics when \<open>len(str) < 2\<close>.\<close>

definition slice_inner :: "string \<Rightarrow> string option" where
  "slice_inner str = (if length str < 2 then None else Some (butlast (tl str)))"

definition parseStringArray :: "string \<Rightarrow> string list outcome" where
  "parseStringArray str =
     (if str = [] \<or> str = ''{}'' then Returned []
      else case slice_inner str of
        None \<Rightarrow> Panicked
      | Some s \<Rightarrow>
          if s = [] then Returned []
          else Returned (filter (\<lambda>part. part \<noteq> []) (map trimQuotes (splitArrayString s))))"

definition parseUUIDArray :: "env \<Rightarrow> string \<Rightarrow> uuid list outcome" where
  "parseUUIDArray e str =
     (if str = [] \<or> str = ''{}'' then Returned []
      else case slice_inner str of
        None \<Rightarrow> Panicked
      | Some s \<Rightarrow>
          if s = [] then Returned []
          else Returned (List.map_filter
                 (\<lambda>part. if part = [] then None else uuid_Parse e part)
                 (map trimQuotes (splitArrayString s))))"

section \<open>The database statements of the detection path\<close>

text \<open>
  The text PostgreSQL prints for an array: elements separated by commas inside braces,
  an element quoted when it is empty, reads as NULL, or holds a brace, a comma, a quote,
  a backslash or white space.
\<close>

definition pg_needs_quote :: "string \<Rightarrow> bool" where
  "pg_needs_quote s =
     (s = [] \<or> ToLower s = ''null'' \<or>
      list_ex (\<lambda>c. c \<in> set [CHR ''{'', CHR ''}'', CHR '','', DQ, CHR 0x5C] \<or> isSpace c) s)"

definition pg_elem :: "string \<Rightarrow> string" where
  "pg_elem s =
     (if pg_needs_quote s
      then [DQ] @ concat (map (\<lambda>c. if c = DQ \<or> c = CHR 0x5C then [CHR 0x5C, c] else [c]) s) @ [DQ]
      else s)"

fun join_commas :: "string list \<Rightarrow> string" where
  "join_commas [] = []"
| "join_commas [x] = x"
| "join_commas (x # y # ys) = x @ '','' @ join_commas (y # ys)"

definition pg_array :: "string list \<Rightarrow> string" where
  "pg_array xs = ''{'' @ join_commas xs @ ''}''"

text \<open>The row a query hands to \<open>Scan\<close>, or what went wrong.\<close>

datatype scan = ScanError error | ErrNoRows | Row int "string option" "string option"

text \<open>
  The query of the failed-login rule: the rows of \<open>events\<close> of that actor and of type
  \<open>auth.failed\<close> whose timestamp is later than \<open>NOW()\<close> minus the window; their number,
  and their ids and IPs by ascending timestamp, printed as arrays (NULL over no row).
\<close>

definition failed_login_rows :: "world \<Rightarrow> time \<Rightarrow> string \<Rightarrow> int \<Rightarrow> Event list" where
  "failed_login_rows w now actor windowMinutes =
     filter (\<lambda>r. ev_Actor r = actor \<and> ev_EventType r = ''auth.failed'' \<and>
                 ev_Timestamp r > now - windowMinutes * Minute) (events w)"

definition query_failed_logins :: "env \<Rightarrow> int \<Rightarrow> world \<Rightarrow> string \<Rightarrow> scan \<times> world" where
  "query_failed_logins e windowMinutes w actor =
     (let now = clock e (steps w); (err, w') = db_exec e w in
      case err of
        Some x \<Rightarrow> (ScanError x, w')
      | None \<Rightarrow>
          let rows = sort_key ev_Timestamp (failed_login_rows w now actor windowMinutes) in
          (Row (int (length rows))
               (if rows = [] then None else Some (pg_array (map (\<lambda>r. uuid_String e (ev_ID r)) rows)))
               (if rows = [] then None else Some (pg_array (map (\<lambda>r. pg_elem (ev_IP r)) rows))),
           w'))"


section \<open>Alert storage (internal/storage/repositories.go)\<close>

text \<open>
  \<open>AlertRepository.StoreAlert\<close>: the evidence is marshalled, the missing id, times and
  status are filled in, and the row is inserted. Every error the database raises is a
  fault of the environment.
\<close>

definition StoreAlert :: "env \<Rightarrow> world \<Rightarrow> Alert \<Rightarrow> error option \<times> world" where
  "StoreAlert e w alert0 =
     (case marshal_error e (al_Evidence alert0) of
        Some x \<Rightarrow> (Some (''failed to marshal evidence: '' @ x), w)
      | None \<Rightarrow>
          let (alert1, w1) =
                (if al_ID alert0 = uuid_Nil
                 then (let (u, w') = uuid_New w in (alert0\<lparr>al_ID := u\<rparr>, w'))
                 else (alert0, w));
              (alert2, w2) =
                (if IsZero (al_CreatedAt alert1)
                 then (let (t, w') = time_Now e w1 in (alert1\<lparr>al_CreatedAt := t\<rparr>, w'))
                 else (alert1, w1));
              (alert3, w3) =
                (if IsZero (al_UpdatedAt alert2)
                 then (let (t, w') = time_Now e w2 in (alert2\<lparr>al_UpdatedAt := t\<rparr>, w'))
                 else (alert2, w2));
              alert4 =
                (if al_Status alert3 = [] then alert3\<lparr>al_Status := AlertStatusOpen\<rparr> else alert3);
              (err, w4) = db_exec e w3
          in (case err of
                Some x \<Rightarrow> (Some (''failed to store alert: '' @ x), w4)
              | None \<Rightarrow> (None, w4\<lparr>alerts := alerts w4 @ [alert4]\<rparr>)))"

section \<open>Detection rules (internal/detection/engine.go)\<close>

type_synonym evaluation = "(Alert list \<times> error option) outcome \<times> world"

definition FailedLoginRule_Name :: string where
  "FailedLoginRule_Name = ''failed_login_spike''"

definition ForbiddenResourceRule_Name :: string where
  "ForbiddenResourceRule_Name = ''forbidden_sensitive_resource''"

definition APIKeyCreationRule_Name :: string where
  "APIKeyCreationRule_Name = ''api_key_creation''"

text \<open>
  The part of \<open>FailedLoginRule.Evaluate\<close> after the row is scanned: \<open>failedCount\<close> and
  the two array texts (empty when NULL) are in hand.
\<close>

definition FailedLoginRule_decide ::
  "env \<Rightarrow> DetectionConfig \<Rightarrow> world \<Rightarrow> Event \<Rightarrow> int \<Rightarrow> string \<Rightarrow> string \<Rightarrow> evaluation" where
  "FailedLoginRule_decide e cfg w event failedCount eventIDsStrVal ipAddressesStrVal =
     (let windowMinutes = FailedLoginWindowMin cfg; threshold = FailedLoginThreshold cfg in
      if failedCount \<ge> threshold then
        (case parseUUIDArray e eventIDsStrVal of
           Panicked \<Rightarrow> (Panicked, w)
         | Returned ids \<Rightarrow>
             let eventIDs = (if length ids = 0 then [ev_ID event] else ids) in
             (case parseStringArray ipAddressesStrVal of
                Panicked \<Rightarrow> (Panicked, w)
              | Returned ips \<Rightarrow>
                  let ipAddresses = (if length ips = 0 then [ev_IP event] else ips);
                      (u, w1) = uuid_New w;
                      (t1, w2) = time_Now e w1;
                      (t2, w3) = time_Now e w2
                  in (Returned
                       ([\<lparr> al_ID = u,
                           al_EventRefs = eventIDs,
                           al_AlertType = FailedLoginRule_Name,
                           al_Severity = SeverityHigh,
                           al_UserID = ev_Actor event,
                           al_Description =
                             ''Detected '' @ itoa failedCount @ '' failed login attempts for user '' @
                             ev_Actor event @ '' within '' @ itoa windowMinutes @
                             '' minutes (threshold: '' @ itoa threshold @ '')'',
                           al_Status = AlertStatusOpen,
                           al_Evidence =
                             [(''failed_attempts'', AInt failedCount),
                              (''window_minutes'', AInt windowMinutes),
                              (''threshold'', AInt threshold),
                              (''ip_addresses'', AStringList ipAddresses),
                              (''first_attempt'', ARFC3339 (ev_Timestamp event))],
                           al_CreatedAt = t1,
                           al_UpdatedAt = t2 \<rparr>], None), w3)))
      else (Returned ([], None), w))"

definition FailedLoginRule_Evaluate :: "env \<Rightarrow> DetectionConfig \<Rightarrow> world \<Rightarrow> Event \<Rightarrow> evaluation" where
  "FailedLoginRule_Evaluate e cfg w event =
     (if ev_EventType event \<noteq> ''auth.failed'' then (Returned ([], None), w)
      else if ev_Actor event = [] then (Returned ([], None), w)
      else
        let (row, w1) = query_failed_logins e (FailedLoginWindowMin cfg) w (ev_Actor event) in
        case row of
          ScanError x \<Rightarrow> (Returned ([], Some (''failed to query failed logins: '' @ x)), w1)
        | ErrNoRows \<Rightarrow> FailedLoginRule_decide e cfg w1 event 0 [] []
        | Row failedCount eventIDsStr ipAddressesStr \<Rightarrow>
            FailedLoginRule_decide e cfg w1 event failedCount
              (case eventIDsStr of None \<Rightarrow> [] | Some s \<Rightarrow> s)
              (case ipAddressesStr of None \<Rightarrow> [] | Some s \<Rightarrow> s))"

definition sensitiveResources :: "string list" where
  "sensitiveResources = [''iam'', ''secrets'', ''kms'', ''secret'']"

text \<open>The type assertion \<open>raw[key].(string)\<close>; a nil map reads as the empty one.\<close>

definition rawString :: "anymap \<Rightarrow> string \<Rightarrow> string option" where
  "rawString raw k = (case map_of raw k of Some (AString s) \<Rightarrow> Some s | _ \<Rightarrow> None)"

text \<open>
  The loop over the sensitive resource types: the \<open>resourceType\<close> at which it breaks,
  or \<open>None\<close> when \<open>isSensitive\<close> stays false.
\<close>

fun findSensitive :: "Event \<Rightarrow> string list \<Rightarrow> string option" where
  "findSensitive event [] = None"
| "findSensitive event (sensitive # rest) =
     (if ev_Resource event \<noteq> [] \<and> contains (ev_Resource event) sensitive then Some sensitive
      else case rawString (ev_Raw event) ''resource'' of
             Some rawResource \<Rightarrow>
               if contains rawResource sensitive then Some sensitive
               else findSensitive event rest
           | None \<Rightarrow> findSensitive event rest)"

definition ForbiddenResourceRule_Evaluate :: "env \<Rightarrow> world \<Rightarrow> Event \<Rightarrow> evaluation" where
  "ForbiddenResourceRule_Evaluate e w event =
     (if ev_EventType event \<noteq> ''forbidden'' then (Returned ([], None), w)
      else case findSensitive event sensitiveResources of
        None \<Rightarrow> (Returned ([], None), w)
      | Some resourceType \<Rightarrow>
          let (u, w1) = uuid_New w;
              (t1, w2) = time_Now e w1;
              (t2, w3) = time_Now e w2
          in (Returned
               ([\<lparr> al_ID = u,
                   al_EventRefs = [ev_ID event],
                   al_AlertType = ForbiddenResourceRule_Name,
                   al_Severity = SeverityCritical,
                   al_UserID = ev_Actor event,
                   al_Description =
                     ''Forbidden access attempt to sensitive resource ('' @ resourceType @
                     '') by '' @ ev_Actor event,
                   al_Status = AlertStatusOpen,
                   al_Evidence =
                     [(''resource_type'', AString resourceType),
                      (''resource'', AString (ev_Resource event)),
                      (''ip_address'', AString (ev_IP event)),
                      (''timestamp'', ARFC3339 (ev_Timestamp event)),
                      (''raw_event'', AMap (ev_Raw event))],
                   al_CreatedAt = t1,
                   al_UpdatedAt = t2 \<rparr>], None), w3))"

definition APIKeyCreationRule_Evaluate :: "env \<Rightarrow> world \<Rightarrow> Event \<Rightarrow> evaluation" where
  "APIKeyCreationRule_Evaluate e w event =
     (if ev_EventType event \<noteq> ''apiKey.create'' then (Returned ([], None), w)
      else
        let keyID = (case rawString (ev_Raw event) ''key_id'' of Some s \<Rightarrow> s | None \<Rightarrow> []);
            keyName = (case rawString (ev_Raw event) ''key_name'' of Some s \<Rightarrow> s | None \<Rightarrow> []);
            (u, w1) = uuid_New w;
            (t1, w2) = time_Now e w1;
            (t2, w3) = time_Now e w2
        in (Returned
             ([\<lparr> al_ID = u,
                 al_EventRefs = [ev_ID event],
                 al_AlertType = APIKeyCreationRule_Name,
                 al_Severity = SeverityHigh,
                 al_UserID = ev_Actor event,
                 al_Description = ''New API key created by '' @ ev_Actor event,
                 al_Status = AlertStatusOpen,
                 al_Evidence =
                   [(''key_id'', AString keyID),
                    (''key_name'', AString keyName),
                    (''ip_address'', AString (ev_IP event)),
                    (''timestamp'', ARFC3339 (ev_Timestamp event)),
                    (''raw_event'', AMap (ev_Raw event))],
                 al_CreatedAt = t1,
                 al_UpdatedAt = t2 \<rparr>], None), w3))"


section \<open>Detection engine (internal/detection/engine.go)\<close>

text \<open>
  A rule is its three methods. \<open>ProcessEvent\<close> also yields the calls it made, in order:
  each \<open>Evaluate\<close> with what it returned and each \<open>StoreAlert\<close> with its error.
\<close>

record Rule =
  rule_Name :: string
  rule_IsActive :: bool
  rule_Evaluate :: "world \<Rightarrow> Event \<Rightarrow> evaluation"

datatype call =
    Evaluate_call string "(Alert list \<times> error option) outcome"
  | StoreAlert_call Alert "error option"

record Engine =
  eng_rules :: "Rule list"

definition NewFailedLoginRule :: "env \<Rightarrow> DetectionConfig \<Rightarrow> Rule" where
  "NewFailedLoginRule e cfg =
     \<lparr> rule_Name = FailedLoginRule_Name, rule_IsActive = True,
       rule_Evaluate = FailedLoginRule_Evaluate e cfg \<rparr>"

definition NewForbiddenResourceRule :: "env \<Rightarrow> DetectionConfig \<Rightarrow> Rule" where
  "NewForbiddenResourceRule e cfg =
     \<lparr> rule_Name = ForbiddenResourceRule_Name, rule_IsActive = True,
       rule_Evaluate = ForbiddenResourceRule_Evaluate e \<rparr>"

definition NewAPIKeyCreationRule :: "env \<Rightarrow> DetectionConfig \<Rightarrow> Rule" where
  "NewAPIKeyCreationRule e cfg =
     \<lparr> rule_Name = APIKeyCreationRule_Name, rule_IsActive = True,
       rule_Evaluate = APIKeyCreationRule_Evaluate e \<rparr>"

definition registerDefaultRules :: "env \<Rightarrow> DetectionConfig \<Rightarrow> Rule list" where
  "registerDefaultRules e cfg =
     [NewFailedLoginRule e cfg, NewForbiddenResourceRule e cfg, NewAPIKeyCreationRule e cfg]"

definition NewEngine :: "env \<Rightarrow> DetectionConfig \<Rightarrow> Engine" where
  "NewEngine e cfg = \<lparr> eng_rules = registerDefaultRules e cfg \<rparr>"

text \<open>The inner loop of \<open>ProcessEvent\<close>: an alert that fails to store is passed over.\<close>

fun storeAlerts :: "env \<Rightarrow> Alert list \<Rightarrow> world \<Rightarrow> world \<times> call list" where
  "storeAlerts e [] w = (w, [])"
| "storeAlerts e (alert # rest) w =
     (let (err, w1) = StoreAlert e w alert;
          (w2, tr) = storeAlerts e rest w1
      in (w2, StoreAlert_call alert err # tr))"

text \<open>The outer loop of \<open>ProcessEvent\<close>, over \<open>e.rules\<close>.\<close>

fun ProcessEvent_rules ::
  "env \<Rightarrow> Rule list \<Rightarrow> Event \<Rightarrow> world \<Rightarrow> error option outcome \<times> world \<times> call list" where
  "ProcessEvent_rules e [] event w = (Returned None, w, [])"
| "ProcessEvent_rules e (rule # rest) event w =
     (if \<not> rule_IsActive rule then ProcessEvent_rules e rest event w
      else case rule_Evaluate rule w event of
        (Panicked, w1) \<Rightarrow> (Panicked, w1, [Evaluate_call (rule_Name rule) Panicked])
      | (Returned (found, Some err), w1) \<Rightarrow>
          (let (res, w2, tr) = ProcessEvent_rules e rest event w1
           in (res, w2, Evaluate_call (rule_Name rule) (Returned (found, Some err)) # tr))
      | (Returned (found, None), w1) \<Rightarrow>
          (let (w2, tr1) = storeAlerts e found w1;
               (res, w3, tr2) = ProcessEvent_rules e rest event w2
           in (res, w3, Evaluate_call (rule_Name rule) (Returned (found, None)) # tr1 @ tr2)))"

definition ProcessEvent ::
  "env \<Rightarrow> Engine \<Rightarrow> world \<Rightarrow> Event \<Rightarrow> error option outcome \<times> world \<times> call list" where
  "ProcessEvent e eng w event = ProcessEvent_rules e (eng_rules eng) event w"


section \<open>Event storage (internal/storage/repositories.go)\<close>

text \<open>
  \<open>EventRepository.StoreEvent\<close>. The statement is \<open>INSERT ... ON CONFLICT (event_id) DO
  NOTHING\<close>: with a row of that provider event id present it inserts nothing and raises
  nothing. The event is passed by pointer, so the caller sees the id and creation time
  filled in.
\<close>

definition StoreEvent :: "env \<Rightarrow> world \<Rightarrow> Event \<Rightarrow> (Event \<times> error option) \<times> world" where
  "StoreEvent e w event0 =
     (case marshal_error e (ev_Raw event0) of
        Some x \<Rightarrow> ((event0, Some (''failed to marshal raw event: '' @ x)), w)
      | None \<Rightarrow>
          let (event1, w1) =
                (if ev_ID event0 = uuid_Nil
                 then (let (u, w') = uuid_New w in (event0\<lparr>ev_ID := u\<rparr>, w'))
                 else (event0, w));
              (event2, w2) =
                (if IsZero (ev_CreatedAt event1)
                 then (let (t, w') = time_Now e w1 in (event1\<lparr>ev_CreatedAt := t\<rparr>, w'))
                 else (event1, w1));
              (err, w3) = db_exec e w2
          in (case err of
                Some x \<Rightarrow> ((event2, Some (''failed to store event: '' @ x)), w3)
              | None \<Rightarrow>
                  if list_ex (\<lambda>r. ev_EventID r = ev_EventID event2) (events w3)
                  then ((event2, None), w3)
                  else ((event2, None), w3\<lparr>events := events w3 @ [event2]\<rparr>)))"

definition GetLastEventTimestamp :: "env \<Rightarrow> world \<Rightarrow> (time option \<times> error option) \<times> world" where
  "GetLastEventTimestamp e w =
     (let (err, w1) = db_exec e w in
      case err of
        Some x \<Rightarrow> ((None, Some (''failed to get last event timestamp: '' @ x)), w1)
      | None \<Rightarrow>
          (case events w of
             [] \<Rightarrow> ((None, None), w1)
           | r # rs \<Rightarrow> ((Some (fold max (map ev_Timestamp rs) (ev_Timestamp r)), None), w1)))"

definition EventExists :: "env \<Rightarrow> world \<Rightarrow> string \<Rightarrow> (bool \<times> error option) \<times> world" where
  "EventExists e w eventID =
     (let (err, w1) = db_exec e w in
      case err of
        Some x \<Rightarrow> ((False, Some (''failed to check event existence: '' @ x)), w1)
      | None \<Rightarrow> ((length (filter (\<lambda>r. ev_EventID r = eventID) (events w)) > 0, None), w1))"

definition UpdateAlertStatus :: "env \<Rightarrow> world \<Rightarrow> uuid \<Rightarrow> string \<Rightarrow> error option \<times> world" where
  "UpdateAlertStatus e w alertID status =
     (let (now, w1) = time_Now e w;
          (err, w2) = db_exec e w1
      in case err of
        Some x \<Rightarrow> (Some (''failed to update alert status: '' @ x), w2)
      | None \<Rightarrow>
          (None, w2\<lparr>alerts :=
             map (\<lambda>a. if al_ID a = alertID then a\<lparr>al_Status := status, al_UpdatedAt := now\<rparr> else a)
                 (alerts w2)\<rparr>))"

definition LogRemediation :: "env \<Rightarrow> world \<Rightarrow> RemediationLog \<Rightarrow> error option \<times> world" where
  "LogRemediation e w logEntry0 =
     (case marshal_error e (rl_Payload logEntry0) of
        Some x \<Rightarrow> (Some (''failed to marshal payload: '' @ x), w)
      | None \<Rightarrow>
          let (logEntry1, w1) =
                (if rl_ID logEntry0 = uuid_Nil
                 then (let (u, w') = uuid_New w in (logEntry0\<lparr>rl_ID := u\<rparr>, w'))
                 else (logEntry0, w));
              (logEntry2, w2) =
                (if IsZero (rl_Timestamp logEntry1)
                 then (let (t, w') = time_Now e w1 in (logEntry1\<lparr>rl_Timestamp := t\<rparr>, w'))
                 else (logEntry1, w1));
              (err, w3) = db_exec e w2
          in (case err of
                Some x \<Rightarrow> (Some (''failed to log remediation: '' @ x), w3)
              | None \<Rightarrow> (None, w3\<lparr>remediation_logs := remediation_logs w3 @ [logEntry2]\<rparr>)))"

section \<open>The status handler (internal/api/server.go)\<close>

text \<open>
  \<open>Server.updateAlertStatus\<close>, given the id of the path and the status of the decoded
  body (\<open>None\<close> when the body does not decode); it answers with the HTTP status code.
\<close>

definition updateAlertStatus :: "env \<Rightarrow> world \<Rightarrow> string \<Rightarrow> string option \<Rightarrow> nat \<times> world" where
  "updateAlertStatus e w idStr body =
     (case uuid_Parse e idStr of
        None \<Rightarrow> (400, w)
      | Some alertID \<Rightarrow>
          (case body of
             None \<Rightarrow> (400, w)
           | Some status \<Rightarrow>
               if status \<noteq> AlertStatusOpen \<and> status \<noteq> AlertStatusInvestigating \<and>
                  status \<noteq> AlertStatusResolved \<and> status \<noteq> AlertStatusFalsePositive
               then (400, w)
               else (case UpdateAlertStatus e w alertID status of
                       (Some x, w1) \<Rightarrow> (500, w1)
                     | (None, w1) \<Rightarrow> (200, w1))))"


section \<open>The Scaleway client (pkg/scaleway)\<close>

record Client =
  apiKey :: string

text \<open>
  \<open>Client.mockEvents\<close>, given the reading \<open>now\<close> of \<open>time.Now().UTC()\<close> it starts
  with: \<open>now.Unix()\<close> is the base of the event ids, and the timestamps are \<open>now\<close> moved
  back by minutes.
\<close>

definition mock_list :: "time \<Rightarrow> string \<Rightarrow> AuditEvent list" where
  "mock_list now source =
     (let eventIDBase = now div 1000000000 in
      [\<lparr> ae_ID = ''evt_mock_'' @ itoa eventIDBase @ ''_001'', ae_Type = ''auth.failed'',
             ae_Actor = ''user@example.com'', ae_Resource = ''iam'', ae_IP = ''203.0.113.1'',
             ae_Timestamp = now + (- 10) * Minute, ae_Source = source,
             ae_Raw = Some [(''event_id'', AString (''evt_mock_'' @ itoa eventIDBase @ ''_001'')),
                          (''type'', AString ''auth.failed''),
                          (''actor'', AString ''user@example.com''),
                          (''reason'', AString ''invalid_credentials'')] \<rparr>,
       \<lparr> ae_ID = ''evt_mock_'' @ itoa eventIDBase @ ''_002'', ae_Type = ''auth.failed'',
             ae_Actor = ''user@example.com'', ae_Resource = ''iam'', ae_IP = ''203.0.113.1'',
             ae_Timestamp = now + (- 8) * Minute, ae_Source = source,
             ae_Raw = Some [(''event_id'', AString (''evt_mock_'' @ itoa eventIDBase @ ''_002'')),
                          (''type'', AString ''auth.failed''),
                          (''actor'', AString ''user@example.com''),
                          (''reason'', AString ''invalid_credentials'')] \<rparr>,
       \<lparr> ae_ID = ''evt_mock_'' @ itoa eventIDBase @ ''_003'', ae_Type = ''auth.failed'',
             ae_Actor = ''user@example.com'', ae_Resource = ''iam'', ae_IP = ''203.0.113.2'',
             ae_Timestamp = now + (- 5) * Minute, ae_Source = source,
             ae_Raw = Some [(''event_id'', AString (''evt_mock_'' @ itoa eventIDBase @ ''_003'')),
                          (''type'', AString ''auth.failed''),
                          (''actor'', AString ''user@example.com''),
                          (''reason'', AString ''invalid_credentials'')] \<rparr>,
       \<lparr> ae_ID = ''evt_mock_'' @ itoa eventIDBase @ ''_006'', ae_Type = ''auth.failed'',
             ae_Actor = ''user@example.com'', ae_Resource = ''iam'', ae_IP = ''203.0.113.1'',
             ae_Timestamp = now + (- 4) * Minute, ae_Source = source,
             ae_Raw = Some [(''event_id'', AString (''evt_mock_'' @ itoa eventIDBase @ ''_006'')),
                          (''type'', AString ''auth.failed''),
                          (''actor'', AString ''user@example.com''),
                          (''reason'', AString ''invalid_credentials'')] \<rparr>,
       \<lparr> ae_ID = ''evt_mock_'' @ itoa eventIDBase @ ''_007'', ae_Type = ''auth.failed'',
             ae_Actor = ''user@example.com'', ae_Resource = ''iam'', ae_IP = ''203.0.113.3'',
             ae_Timestamp = now + (- 2) * Minute, ae_Source = source,
             ae_Raw = Some [(''event_id'', AString (''evt_mock_'' @ itoa eventIDBase @ ''_007'')),
                          (''type'', AString ''auth.failed''),
                          (''actor'', AString ''user@example.com''),
                          (''reason'', AString ''invalid_credentials'')] \<rparr>,
       \<lparr> ae_ID = ''evt_mock_'' @ itoa eventIDBase @ ''_004'', ae_Type = ''apiKey.create'',
             ae_Actor = ''admin@example.com'', ae_Resource = ''iam'', ae_IP = ''198.51.100.1'',
             ae_Timestamp = now + (- 3) * Minute, ae_Source = source,
             ae_Raw = Some [(''event_id'', AString (''evt_mock_'' @ itoa eventIDBase @ ''_004'')),
                          (''type'', AString ''apiKey.create''),
                          (''actor'', AString ''admin@example.com''),
                          (''key_id'', AString ''key_abc123''),
                          (''key_name'', AString ''Production API Key'')] \<rparr>,
       \<lparr> ae_ID = ''evt_mock_'' @ itoa eventIDBase @ ''_005'', ae_Type = ''forbidden'',
             ae_Actor = ''attacker@example.com'', ae_Resource = ''secrets'', ae_IP = ''192.0.2.1'',
             ae_Timestamp = now + (- 1) * Minute, ae_Source = source,
             ae_Raw = Some [(''event_id'', AString (''evt_mock_'' @ itoa eventIDBase @ ''_005'')),
                          (''type'', AString ''forbidden''),
                          (''actor'', AString ''attacker@example.com''),
                          (''resource'', AString ''secrets/database-password''),
                          (''action'', AString ''read'')] \<rparr>])"

definition mockEvents :: "time \<Rightarrow> time option \<Rightarrow> string \<Rightarrow> AuditEvent list" where
  "mockEvents now since source =
     (case since of
        None \<Rightarrow> mock_list now source
      | Some t \<Rightarrow> filter (\<lambda>evt. ae_Timestamp evt > t) (mock_list now source))"

definition FetchAuditEvents ::
  "env \<Rightarrow> Client \<Rightarrow> world \<Rightarrow> time option \<Rightarrow> (AuditEvent list \<times> error option) \<times> world" where
  "FetchAuditEvents e c w since =
     (if apiKey c = [] then
        (let (now, w1) = time_Now e w in ((mockEvents now since ''audit'', None), w1))
      else (http_events e (steps w) ''audit'' since, w\<lparr>steps := Suc (steps w)\<rparr>))"

definition FetchAuthenticationEvents ::
  "env \<Rightarrow> Client \<Rightarrow> world \<Rightarrow> time option \<Rightarrow> (AuditEvent list \<times> error option) \<times> world" where
  "FetchAuthenticationEvents e c w since =
     (if apiKey c = [] then
        (let (now, w1) = time_Now e w in ((mockEvents now since ''auth'', None), w1))
      else (http_events e (steps w) ''authentication'' since, w\<lparr>steps := Suc (steps w)\<rparr>))"

definition Client_LockUser :: "env \<Rightarrow> world \<Rightarrow> string \<Rightarrow> error option \<times> world" where
  "Client_LockUser e w userID = (http_iam e (steps w) ''lock'' userID, w\<lparr>steps := Suc (steps w)\<rparr>)"

definition Client_UnlockUser :: "env \<Rightarrow> world \<Rightarrow> string \<Rightarrow> error option \<times> world" where
  "Client_UnlockUser e w userID = (http_iam e (steps w) ''unlock'' userID, w\<lparr>steps := Suc (steps w)\<rparr>)"

definition Client_RevokeAPIKey :: "env \<Rightarrow> world \<Rightarrow> string \<Rightarrow> error option \<times> world" where
  "Client_RevokeAPIKey e w keyID = (http_iam e (steps w) ''revoke'' keyID, w\<lparr>steps := Suc (steps w)\<rparr>)"

section \<open>The ingestor (internal/ingestion/ingestor.go)\<close>

record Ingestor =
  ing_client :: Client
  ing_processor :: "Engine option"

definition Processor_ProcessEvent ::
  "env \<Rightarrow> Engine \<Rightarrow> world \<Rightarrow> Event \<Rightarrow> error option outcome \<times> world \<times> call list" where
  "Processor_ProcessEvent e eng w event = ProcessEvent e eng w event"

text \<open>
  The conversions inside the loop of \<open>Ingest\<close>: the raw map is created when nil and
  annotated with the source; the event is copied into an ingestion \<open>Event\<close>, which
  \<open>enrichEvent\<close> returns unchanged, and then into a \<open>models.Event\<close> with the new id
  \<open>u\<close> and the creation time \<open>t\<close>.
\<close>

definition toModelEvent :: "AuditEvent \<Rightarrow> uuid \<Rightarrow> time \<Rightarrow> Event" where
  "toModelEvent scalewayEvent u t =
     (let raw0 = (case ae_Raw scalewayEvent of None \<Rightarrow> [] | Some r \<Rightarrow> r);
          raw1 = (if ae_Source scalewayEvent \<noteq> []
                  then map_set ''source'' (AString (ae_Source scalewayEvent)) raw0 else raw0)
      in \<lparr> ev_ID = u,
           ev_EventID = ae_ID scalewayEvent,
           ev_Raw = raw1,
           ev_EventType = ae_Type scalewayEvent,
           ev_Actor = ae_Actor scalewayEvent,
           ev_Resource = ae_Resource scalewayEvent,
           ev_IP = ae_IP scalewayEvent,
           ev_Region = [],
           ev_Timestamp = ae_Timestamp scalewayEvent,
           ev_IngestFailed = False,
           ev_CreatedAt = t \<rparr>)"

text \<open>
  The loop of \<open>Ingest\<close> over the fetched events. Beside the store it yields the events
  it handed to the processor's \<open>ProcessEvent\<close>, in order.
\<close>

fun Ingest_loop ::
  "env \<Rightarrow> Ingestor \<Rightarrow> AuditEvent list \<Rightarrow> world \<Rightarrow> unit outcome \<times> world \<times> Event list" where
  "Ingest_loop e i [] w = (Returned (), w, [])"
| "Ingest_loop e i (scalewayEvent # rest) w =
     (let ((exists, err), w1) = EventExists e w (ae_ID scalewayEvent) in
      if err \<noteq> None then Ingest_loop e i rest w1
      else if exists then Ingest_loop e i rest w1
      else
        let (u, w2) = uuid_New w1;
            (t, w3) = time_Now e w2;
            modelEvent = toModelEvent scalewayEvent u t;
            ((stored, serr), w4) = StoreEvent e w3 modelEvent
        in if serr \<noteq> None then Ingest_loop e i rest w4
           else (case ing_processor i of
                   None \<Rightarrow> Ingest_loop e i rest w4
                 | Some p \<Rightarrow>
                     (case Processor_ProcessEvent e p w4 stored of
                        (Panicked, w5, tr) \<Rightarrow> (Panicked, w5, [stored])
                      | (Returned perr, w5, tr) \<Rightarrow>
                          (let (res, w6, processed) = Ingest_loop e i rest w5
                           in (res, w6, stored # processed)))))"

definition Ingest :: "env \<Rightarrow> Ingestor \<Rightarrow> world \<Rightarrow> error option outcome \<times> world \<times> Event list" where
  "Ingest e i w =
     (let ((lastTimestamp, err0), w1) = GetLastEventTimestamp e w;
          ((auditEvents, err1), w2) = FetchAuditEvents e (ing_client i) w1 lastTimestamp
      in case err1 of
        Some x \<Rightarrow> (Returned (Some (''failed to fetch audit events: '' @ x)), w2, [])
      | None \<Rightarrow>
          (let ((authEvents, err2), w3) = FetchAuthenticationEvents e (ing_client i) w2 lastTimestamp
           in case err2 of
             Some x \<Rightarrow> (Returned (Some (''failed to fetch authentication events: '' @ x)), w3, [])
           | None \<Rightarrow>
               (let events = auditEvents @ authEvents in
                if length events = 0 then (Returned None, w3, [])
                else (case Ingest_loop e i events w3 of
                        (Panicked, w4, processed) \<Rightarrow> (Panicked, w4, processed)
                      | (Returned u, w4, processed) \<Rightarrow> (Returned None, w4, processed)))))"


section \<open>The remediation service (internal/remediation/service.go)\<close>

text \<open>
  Each operation calls the client, builds the log entry and hands it to
  \<open>LogRemediation\<close>. Beside its error and the store it yields the entries it handed
  over, each with the error that write returned. The plain forms leave the id, the alert
  id and the timestamp of the entry at their zero values.
\<close>

definition LockUser ::
  "env \<Rightarrow> world \<Rightarrow> string \<Rightarrow> string \<Rightarrow> string \<Rightarrow>
   error option \<times> world \<times> (RemediationLog \<times> error option) list" where
  "LockUser e w userID actor reason =
     (case Client_LockUser e w userID of
        (Some err, w1) \<Rightarrow>
          (let log = \<lparr> rl_ID = uuid_Nil, rl_AlertID = uuid_Nil, rl_ActorUser = actor,
                       rl_ActionType = ActionTypeLockUser,
                       rl_Payload = [(''user_id'', AString userID), (''reason'', AString reason)],
                       rl_Result = ''failed: '' @ err, rl_Timestamp = time_zero \<rparr>;
               (lerr, w2) = LogRemediation e w1 log
           in (Some (''failed to lock user: '' @ err), w2, [(log, lerr)]))
      | (None, w1) \<Rightarrow>
          (let log = \<lparr> rl_ID = uuid_Nil, rl_AlertID = uuid_Nil, rl_ActorUser = actor,
                       rl_ActionType = ActionTypeLockUser,
                       rl_Payload = [(''user_id'', AString userID), (''reason'', AString reason)],
                       rl_Result = ''success'', rl_Timestamp = time_zero \<rparr>;
               (lerr, w2) = LogRemediation e w1 log
           in (lerr, w2, [(log, lerr)])))"

definition UnlockUser ::
  "env \<Rightarrow> world \<Rightarrow> string \<Rightarrow> string \<Rightarrow> string \<Rightarrow>
   error option \<times> world \<times> (RemediationLog \<times> error option) list" where
  "UnlockUser e w userID actor reason =
     (case Client_UnlockUser e w userID of
        (Some err, w1) \<Rightarrow>
          (let log = \<lparr> rl_ID = uuid_Nil, rl_AlertID = uuid_Nil, rl_ActorUser = actor,
                       rl_ActionType = ActionTypeUnlockUser,
                       rl_Payload = [(''user_id'', AString userID), (''reason'', AString reason)],
                       rl_Result = ''failed: '' @ err, rl_Timestamp = time_zero \<rparr>;
               (lerr, w2) = LogRemediation e w1 log
           in (Some (''failed to unlock user: '' @ err), w2, [(log, lerr)]))
      | (None, w1) \<Rightarrow>
          (let log = \<lparr> rl_ID = uuid_Nil, rl_AlertID = uuid_Nil, rl_ActorUser = actor,
                       rl_ActionType = ActionTypeUnlockUser,
                       rl_Payload = [(''user_id'', AString userID), (''reason'', AString reason)],
                       rl_Result = ''success'', rl_Timestamp = time_zero \<rparr>;
               (lerr, w2) = LogRemediation e w1 log
           in (lerr, w2, [(log, lerr)])))"

definition RevokeAPIKey ::
  "env \<Rightarrow> world \<Rightarrow> string \<Rightarrow> string \<Rightarrow> string \<Rightarrow>
   error option \<times> world \<times> (RemediationLog \<times> error option) list" where
  "RevokeAPIKey e w keyID actor reason =
     (case Client_RevokeAPIKey e w keyID of
        (Some err, w1) \<Rightarrow>
          (let log = \<lparr> rl_ID = uuid_Nil, rl_AlertID = uuid_Nil, rl_ActorUser = actor,
                       rl_ActionType = ActionTypeRevokeKey,
                       rl_Payload = [(''key_id'', AString keyID), (''reason'', AString reason)],
                       rl_Result = ''failed: '' @ err, rl_Timestamp = time_zero \<rparr>;
               (lerr, w2) = LogRemediation e w1 log
           in (Some (''failed to revoke API key: '' @ err), w2, [(log, lerr)]))
      | (None, w1) \<Rightarrow>
          (let log = \<lparr> rl_ID = uuid_Nil, rl_AlertID = uuid_Nil, rl_ActorUser = actor,
                       rl_ActionType = ActionTypeRevokeKey,
                       rl_Payload = [(''key_id'', AString keyID), (''reason'', AString reason)],
                       rl_Result = ''success'', rl_Timestamp = time_zero \<rparr>;
               (lerr, w2) = LogRemediation e w1 log
           in (lerr, w2, [(log, lerr)])))"

definition LockUserWithAlert ::
  "env \<Rightarrow> world \<Rightarrow> uuid \<Rightarrow> string \<Rightarrow> string \<Rightarrow> string \<Rightarrow>
   error option \<times> world \<times> (RemediationLog \<times> error option) list" where
  "LockUserWithAlert e w alertID userID actor reason =
     (case Client_LockUser e w userID of
        (Some err, w1) \<Rightarrow>
          (let (u, w1') = uuid_New w1;
               log = \<lparr> rl_ID = u, rl_AlertID = alertID, rl_ActorUser = actor,
                       rl_ActionType = ActionTypeLockUser,
                       rl_Payload = [(''user_id'', AString userID), (''reason'', AString reason)],
                       rl_Result = ''failed: '' @ err, rl_Timestamp = time_zero \<rparr>;
               (lerr, w2) = LogRemediation e w1' log
           in (Some (''failed to lock user: '' @ err), w2, [(log, lerr)]))
      | (None, w1) \<Rightarrow>
          (let (u, w1') = uuid_New w1;
               log = \<lparr> rl_ID = u, rl_AlertID = alertID, rl_ActorUser = actor,
                       rl_ActionType = ActionTypeLockUser,
                       rl_Payload = [(''user_id'', AString userID), (''reason'', AString reason)],
                       rl_Result = ''success'', rl_Timestamp = time_zero \<rparr>;
               (lerr, w2) = LogRemediation e w1' log
           in (lerr, w2, [(log, lerr)])))"

definition UnlockUserWithAlert ::
  "env \<Rightarrow> world \<Rightarrow> uuid \<Rightarrow> string \<Rightarrow> string \<Rightarrow> string \<Rightarrow>
   error option \<times> world \<times> (RemediationLog \<times> error option) list" where
  "UnlockUserWithAlert e w alertID userID actor reason =
     (case Client_UnlockUser e w userID of
        (Some err, w1) \<Rightarrow>
          (let (u, w1') = uuid_New w1;
               log = \<lparr> rl_ID = u, rl_AlertID = alertID, rl_ActorUser = actor,
                       rl_ActionType = ActionTypeUnlockUser,
                       rl_Payload = [(''user_id'', AString userID), (''reason'', AString reason)],
                       rl_Result = ''failed: '' @ err, rl_Timestamp = time_zero \<rparr>;
               (lerr, w2) = LogRemediation e w1' log
           in (Some (''failed to unlock user: '' @ err), w2, [(log, lerr)]))
      | (None, w1) \<Rightarrow>
          (let (u, w1') = uuid_New w1;
               log = \<lparr> rl_ID = u, rl_AlertID = alertID, rl_ActorUser = actor,
                       rl_ActionType = ActionTypeUnlockUser,
                       rl_Payload = [(''user_id'', AString userID), (''reason'', AString reason)],
                       rl_Result = ''success'', rl_Timestamp = time_zero \<rparr>;
               (lerr, w2) = LogRemediation e w1' log
           in (lerr, w2, [(log, lerr)])))"

definition RevokeAPIKeyWithAlert ::
  "env \<Rightarrow> world \<Rightarrow> uuid \<Rightarrow> string \<Rightarrow> string \<Rightarrow> string \<Rightarrow>
   error option \<times> world \<times> (RemediationLog \<times> error option) list" where
  "RevokeAPIKeyWithAlert e w alertID keyID actor reason =
     (case Client_RevokeAPIKey e w keyID of
        (Some err, w1) \<Rightarrow>
          (let (u, w1') = uuid_New w1;
               log = \<lparr> rl_ID = u, rl_AlertID = alertID, rl_ActorUser = actor,
                       rl_ActionType = ActionTypeRevokeKey,
                       rl_Payload = [(''key_id'', AString keyID), (''reason'', AString reason)],
                       rl_Result = ''failed: '' @ err, rl_Timestamp = time_zero \<rparr>;
               (lerr, w2) = LogRemediation e w1' log
           in (Some (''failed to revoke API key: '' @ err), w2, [(log, lerr)]))
      | (None, w1) \<Rightarrow>
          (let (u, w1') = uuid_New w1;
               log = \<lparr> rl_ID = u, rl_AlertID = alertID, rl_ActorUser = actor,
                       rl_ActionType = ActionTypeRevokeKey,
                       rl_Payload = [(''key_id'', AString keyID), (''reason'', AString reason)],
                       rl_Result = ''success'', rl_Timestamp = time_zero \<rparr>;
               (lerr, w2) = LogRemediation e w1' log
           in (lerr, w2, [(log, lerr)])))"

section \<open>Specification predicates and example inputs\<close>



text \<open>
  An environment in which nothing fails and identifiers are printed in decimal (and
  parsed back, up to 9), the default detection configuration
  (\<open>internal/config/config.go\<close>: window 15 minutes, threshold 5) and an empty store.
\<close>

definition env0 :: env where
  "env0 = \<lparr> db_fault = (\<lambda>n. None), clock = (\<lambda>n. 1700000000000000000 + int n),
            marshal_error = (\<lambda>m. None),
            uuid_Parse = map_of [(''1'', 1), (''2'', 2), (''3'', 3), (''4'', 4), (''5'', 5),
                                 (''6'', 6), (''7'', 7), (''8'', 8), (''9'', 9)],
            uuid_String = (\<lambda>u. itoa (int u)),
            http_events = (\<lambda>n src since. ([], None)),
            http_iam = (\<lambda>n opn subject. None) \<rparr>"

definition cfg0 :: DetectionConfig where
  "cfg0 = \<lparr> FailedLoginWindowMin = 15, FailedLoginThreshold = 5 \<rparr>"



text \<open>
  The rows the query of the failed-login rule counts for an event: the events of its
  actor, of type \<open>auth.failed\<close>, inside the window that ends at the time of the query;
  and the two array texts the query returns over them.
\<close>

definition window_rows :: "env \<Rightarrow> DetectionConfig \<Rightarrow> world \<Rightarrow> Event \<Rightarrow> Event list" where
  "window_rows e cfg w event =
     failed_login_rows w (clock e (steps w)) (ev_Actor event) (FailedLoginWindowMin cfg)"

definition ids_text :: "env \<Rightarrow> Event list \<Rightarrow> string" where
  "ids_text e rows =
     (if rows = [] then [] else pg_array (map (\<lambda>r. uuid_String e (ev_ID r)) (sort_key ev_Timestamp rows)))"

definition ips_text :: "Event list \<Rightarrow> string" where
  "ips_text rows =
     (if rows = [] then [] else pg_array (map (\<lambda>r. pg_elem (ev_IP r)) (sort_key ev_Timestamp rows)))"

text \<open>
  Failed logins of one user, 10, 8, 5, 4 and 2 minutes before the clock of \<open>env0\<close>, and
  the stores holding the first four and all five of them.
\<close>

definition login_attempt :: "nat \<Rightarrow> int \<Rightarrow> string \<Rightarrow> Event" where
  "login_attempt n minutes ip =
     \<lparr> ev_ID = n, ev_EventID = ''evt_'' @ itoa (int n), ev_Raw = [],
       ev_EventType = ''auth.failed'', ev_Actor = ''user@example.com'', ev_Resource = ''iam'',
       ev_IP = ip, ev_Region = [], ev_Timestamp = 1700000000000000000 - minutes * Minute,
       ev_IngestFailed = False, ev_CreatedAt = 1700000000000000000 \<rparr>"

definition w_four :: world where
  "w_four = \<lparr> events = [login_attempt 1 10 ''203.0.113.1'', login_attempt 2 8 ''203.0.113.1'',
                     login_attempt 3 5 ''203.0.113.2'', login_attempt 4 4 ''203.0.113.1''],
          alerts = [], remediation_logs = [], next_uuid = 5, steps = 0 \<rparr>"

definition w_five :: world where
  "w_five = \<lparr> events = [login_attempt 1 10 ''203.0.113.1'', login_attempt 2 8 ''203.0.113.1'',
                     login_attempt 3 5 ''203.0.113.2'', login_attempt 4 4 ''203.0.113.1'',
                     login_attempt 5 2 ''203.0.113.3''],
          alerts = [], remediation_logs = [], next_uuid = 5, steps = 0 \<rparr>"






text \<open>
  The stages of one \<open>Ingest\<close> cycle before its loop: the watermark read from the store,
  the audit fetch made with it and the authentication fetch made after it.
\<close>

definition Ingest_since :: "env \<Rightarrow> world \<Rightarrow> time option" where
  "Ingest_since e w = fst (fst (GetLastEventTimestamp e w))"

definition Ingest_audit ::
  "env \<Rightarrow> Ingestor \<Rightarrow> world \<Rightarrow> (AuditEvent list \<times> error option) \<times> world" where
  "Ingest_audit e i w =
     FetchAuditEvents e (ing_client i) (snd (GetLastEventTimestamp e w)) (Ingest_since e w)"

definition Ingest_auth ::
  "env \<Rightarrow> Ingestor \<Rightarrow> world \<Rightarrow> (AuditEvent list \<times> error option) \<times> world" where
  "Ingest_auth e i w =
     FetchAuthenticationEvents e (ing_client i) (snd (Ingest_audit e i w)) (Ingest_since e w)"

text \<open>Two stores with the same three tables and the same identifiers drawn.\<close>

definition same_tables :: "world \<Rightarrow> world \<Rightarrow> bool" where
  "same_tables w w' =
     (events w' = events w \<and> alerts w' = alerts w \<and>
      remediation_logs w' = remediation_logs w \<and> next_uuid w' = next_uuid w)"

text \<open>
  The rules of the ingestor's processor, if it has one, leave the events table as it is
  (the registered rules only read it).
\<close>

definition rules_keep_events :: "Ingestor \<Rightarrow> bool" where
  "rules_keep_events i =
     (case ing_processor i of
        None \<Rightarrow> True
      | Some p \<Rightarrow> \<forall>r\<in>set (eng_rules p). \<forall>v ev. events (snd (rule_Evaluate r v ev)) = events v)"

definition provider_ids :: "Event list \<Rightarrow> string set" where
  "provider_ids rows = set (map ev_EventID rows)"

text \<open>
  Ingestors over the default engine: one without an API key (the client answers with
  the mock events) and one with a key; environments whose network fails on every fetch,
  or on the authentication fetch only; and a store that already holds the provider event
  id of the seventh mock event, under an older timestamp.
\<close>

definition mock_ingestor :: Ingestor where
  "mock_ingestor = \<lparr> ing_client = \<lparr> apiKey = [] \<rparr>, ing_processor = Some (NewEngine env0 cfg0) \<rparr>"

definition live_ingestor :: Ingestor where
  "live_ingestor = \<lparr> ing_client = \<lparr> apiKey = ''SCW-KEY'' \<rparr>, ing_processor = Some (NewEngine env0 cfg0) \<rparr>"

definition env_net_down :: env where
  "env_net_down = env0\<lparr>http_events := (\<lambda>n src since. ([], Some ''timeout''))\<rparr>"

definition env_auth_down :: env where
  "env_auth_down =
     env0\<lparr>http_events := (\<lambda>n src since. if src = ''audit'' then ([], None) else ([], Some ''timeout''))\<rparr>"

definition seen_event :: Event where
  "seen_event =
     \<lparr> ev_ID = 1, ev_EventID = ''evt_mock_1700000000_005'', ev_Raw = [],
       ev_EventType = ''forbidden'', ev_Actor = ''attacker@example.com'', ev_Resource = ''secrets'',
       ev_IP = ''192.0.2.1'', ev_Region = [], ev_Timestamp = 1700000000000000000 - 20 * Minute,
       ev_IngestFailed = False, ev_CreatedAt = 1700000000000000000 - 20 * Minute \<rparr>"

definition w_seen :: world where
  "w_seen = \<lparr> events = [seen_event], alerts = [], remediation_logs = [], next_uuid = 1, steps = 0 \<rparr>"

text \<open>
  What the loop of \<open>Ingest\<close> maintains between a store and a later one: the events
  table only grew, by rows of pairwise different provider ids that the earlier table did
  not hold, and the events handed to \<open>ProcessEvent\<close> are among those rows, each id once.
\<close>

definition loop_inv :: "world \<Rightarrow> world \<Rightarrow> Event list \<Rightarrow> bool" where
  "loop_inv w w' processed =
     (\<exists>added. events w' = events w @ added \<and> distinct (map ev_EventID added) \<and>
        provider_ids added \<inter> provider_ids (events w) = {} \<and>
        provider_ids processed \<subseteq> provider_ids added \<and> distinct (map ev_EventID processed))"

text \<open>
  The audit trail of one remediation call, given the error \<open>cerr\<close> of the client's
  mutating call: exactly one entry was handed to \<open>LogRemediation\<close>, with the action
  type and alert id of the call; when the client failed with \<open>err\<close>, the entry's result
  is \<open>failed: err\<close> and the call returns \<open>err\<close> behind the operation's prefix; when it
  succeeded, the result is \<open>success\<close> and the call returns what the log write returned.
  When the write succeeded the entry is the one row added to the table (with its id
  and timestamp filled in); when it failed the table is as it was.
\<close>

definition audit_trail ::
  "error option \<Rightarrow> string \<Rightarrow> string \<Rightarrow> uuid \<Rightarrow> world \<Rightarrow>
   error option \<times> world \<times> (RemediationLog \<times> error option) list \<Rightarrow> bool" where
  "audit_trail cerr prefix action alertID w r =
     (case r of (ret, w', logs) \<Rightarrow>
        \<exists>entry lerr.
          logs = [(entry, lerr)] \<and>
          rl_ActionType entry = action \<and> rl_AlertID entry = alertID \<and>
          (case cerr of
             Some err \<Rightarrow> rl_Result entry = ''failed: '' @ err \<and> ret = Some (prefix @ err)
           | None \<Rightarrow> rl_Result entry = ''success'' \<and> ret = lerr) \<and>
          (case lerr of
             None \<Rightarrow>
               (\<exists>u t. remediation_logs w' =
                        remediation_logs w @ [entry\<lparr>rl_ID := u, rl_Timestamp := t\<rparr>])
           | Some x \<Rightarrow> remediation_logs w' = remediation_logs w))"

text \<open>An environment whose IAM API refuses every mutating request.\<close>

definition env_iam_down :: env where
  "env_iam_down = env0\<lparr>http_iam := (\<lambda>n opn subject. Some ''status 403'')\<rparr>"

section \<open>Verification\<close>

subsection \<open>The forbidden-sensitive-resource rule\<close>














subsection \<open>The failed-login-spike rule\<close>

lemma slice_inner_pg_array: "slice_inner (pg_array xs) = Some (join_commas xs)"
  by (simp add: slice_inner_def pg_array_def butlast_append)

lemma parseUUIDArray_pg: "parseUUIDArray e (pg_array xs) \<noteq> Panicked"
  by (simp add: parseUUIDArray_def slice_inner_pg_array)

lemma parseStringArray_pg: "parseStringArray (pg_array xs) \<noteq> Panicked"
  by (simp add: parseStringArray_def slice_inner_pg_array)

lemma parseUUIDArray_Nil: "parseUUIDArray e [] = Returned []"
  by (simp add: parseUUIDArray_def)

lemma parseStringArray_Nil: "parseStringArray [] = Returned []"
  by (simp add: parseStringArray_def)

lemma decide_below:
  "c < FailedLoginThreshold cfg \<Longrightarrow>
   FailedLoginRule_decide e cfg w event c ids ips = (Returned ([], None), w)"
  by (simp add: FailedLoginRule_decide_def Let_def)

lemma decide_panic:
  "FailedLoginThreshold cfg \<le> c \<Longrightarrow>
   parseUUIDArray e ids = Panicked \<or> parseStringArray ips = Panicked \<Longrightarrow>
   FailedLoginRule_decide e cfg w event c ids ips = (Panicked, w)"
  by (auto simp add: FailedLoginRule_decide_def Let_def split: outcome.splits)

lemma decide_alert:
  assumes "FailedLoginThreshold cfg \<le> c"
    and "parseUUIDArray e ids = Returned xs"
    and "parseStringArray ips = Returned ys"
  shows "\<exists>a. FailedLoginRule_decide e cfg w event c ids ips =
            (Returned ([a], None), w\<lparr>next_uuid := Suc (next_uuid w), steps := Suc (Suc (steps w))\<rparr>) \<and>
          al_ID a = Suc (next_uuid w) \<and>
          al_EventRefs a = (if xs = [] then [ev_ID event] else xs) \<and>
          al_AlertType a = FailedLoginRule_Name \<and>
          al_Severity a = SeverityHigh \<and>
          al_UserID a = ev_Actor event \<and>
          al_Status a = AlertStatusOpen \<and>
          al_Evidence a =
            [(''failed_attempts'', AInt c),
             (''window_minutes'', AInt (FailedLoginWindowMin cfg)),
             (''threshold'', AInt (FailedLoginThreshold cfg)),
             (''ip_addresses'', AStringList (if ys = [] then [ev_IP event] else ys)),
             (''first_attempt'', ARFC3339 (ev_Timestamp event))]"
  using assms
  by (simp add: FailedLoginRule_decide_def Let_def uuid_New_def time_Now_def)

lemma sort_key_Nil_iff: "(sort_key f xs = []) = (xs = [])"
  by (metis length_sort length_0_conv)

lemma Evaluate_query_ok:
  assumes "ev_EventType event = ''auth.failed''" and "ev_Actor event \<noteq> []"
    and "db_fault e (steps w) = None"
  shows "FailedLoginRule_Evaluate e cfg w event =
           FailedLoginRule_decide e cfg (w\<lparr>steps := Suc (steps w)\<rparr>) event
             (int (length (window_rows e cfg w event)))
             (ids_text e (window_rows e cfg w event)) (ips_text (window_rows e cfg w event))"
  using assms
  by (simp add: FailedLoginRule_Evaluate_def query_failed_logins_def db_exec_def Let_def
      window_rows_def ids_text_def ips_text_def sort_key_Nil_iff)

lemma Evaluate_query_fault:
  assumes "ev_EventType event = ''auth.failed''" and "ev_Actor event \<noteq> []"
    and "db_fault e (steps w) = Some x"
  shows "FailedLoginRule_Evaluate e cfg w event =
           (Returned ([], Some (''failed to query failed logins: '' @ x)), w\<lparr>steps := Suc (steps w)\<rparr>)"
  using assms
  by (simp add: FailedLoginRule_Evaluate_def query_failed_logins_def db_exec_def Let_def)

lemma ids_text_parse: "\<exists>xs. parseUUIDArray e (ids_text e rows) = Returned xs"
  using parseUUIDArray_pg[of e] parseUUIDArray_Nil[of e]
  by (cases "parseUUIDArray e (ids_text e rows)") (auto simp: ids_text_def split: if_splits)

lemma ips_text_parse: "\<exists>ys. parseStringArray (ips_text rows) = Returned ys"
  using parseStringArray_pg parseStringArray_Nil
  by (cases "parseStringArray (ips_text rows)") (auto simp: ips_text_def split: if_splits)

lemma Evaluate_below:
  assumes "ev_EventType event = ''auth.failed''" and "ev_Actor event \<noteq> []"
    and "db_fault e (steps w) = None"
    and "int (length (window_rows e cfg w event)) < FailedLoginThreshold cfg"
  shows "FailedLoginRule_Evaluate e cfg w event = (Returned ([], None), w\<lparr>steps := Suc (steps w)\<rparr>)"
  using assms by (simp add: Evaluate_query_ok decide_below)

lemma Evaluate_alert:
  assumes "ev_EventType event = ''auth.failed''" and "ev_Actor event \<noteq> []"
    and "db_fault e (steps w) = None"
    and "FailedLoginThreshold cfg \<le> int (length (window_rows e cfg w event))"
  shows "\<exists>a xs ys. FailedLoginRule_Evaluate e cfg w event =
            (Returned ([a], None), w\<lparr>next_uuid := Suc (next_uuid w), steps := Suc (Suc (Suc (steps w)))\<rparr>) \<and>
          parseUUIDArray e (ids_text e (window_rows e cfg w event)) = Returned xs \<and>
          parseStringArray (ips_text (window_rows e cfg w event)) = Returned ys \<and>
          al_ID a = Suc (next_uuid w) \<and>
          al_EventRefs a = (if xs = [] then [ev_ID event] else xs) \<and>
          al_AlertType a = FailedLoginRule_Name \<and>
          al_Severity a = SeverityHigh \<and>
          al_UserID a = ev_Actor event \<and>
          al_Status a = AlertStatusOpen \<and>
          al_Evidence a =
            [(''failed_attempts'', AInt (int (length (window_rows e cfg w event)))),
             (''window_minutes'', AInt (FailedLoginWindowMin cfg)),
             (''threshold'', AInt (FailedLoginThreshold cfg)),
             (''ip_addresses'', AStringList (if ys = [] then [ev_IP event] else ys)),
             (''first_attempt'', ARFC3339 (ev_Timestamp event))]"
proof -
  obtain xs where xs: "parseUUIDArray e (ids_text e (window_rows e cfg w event)) = Returned xs"
    using ids_text_parse by blast
  obtain ys where ys: "parseStringArray (ips_text (window_rows e cfg w event)) = Returned ys"
    using ips_text_parse by blast
  from decide_alert[OF assms(4) xs ys, of "w\<lparr>steps := Suc (steps w)\<rparr>" event]
  obtain a where a: "FailedLoginRule_decide e cfg (w\<lparr>steps := Suc (steps w)\<rparr>) event
        (int (length (window_rows e cfg w event)))
        (ids_text e (window_rows e cfg w event)) (ips_text (window_rows e cfg w event)) =
       (Returned ([a], None), w\<lparr>next_uuid := Suc (next_uuid w), steps := Suc (Suc (Suc (steps w)))\<rparr>)"
    and rest: "al_ID a = Suc (next_uuid w)"
      "al_EventRefs a = (if xs = [] then [ev_ID event] else xs)"
      "al_AlertType a = FailedLoginRule_Name"
      "al_Severity a = SeverityHigh"
      "al_UserID a = ev_Actor event"
      "al_Status a = AlertStatusOpen"
      "al_Evidence a =
            [(''failed_attempts'', AInt (int (length (window_rows e cfg w event)))),
             (''window_minutes'', AInt (FailedLoginWindowMin cfg)),
             (''threshold'', AInt (FailedLoginThreshold cfg)),
             (''ip_addresses'', AStringList (if ys = [] then [ev_IP event] else ys)),
             (''first_attempt'', ARFC3339 (ev_Timestamp event))]"
    by auto
  from a have "FailedLoginRule_Evaluate e cfg w event =
       (Returned ([a], None), w\<lparr>next_uuid := Suc (next_uuid w), steps := Suc (Suc (Suc (steps w)))\<rparr>)"
    using Evaluate_query_ok[OF assms(1,2,3)] by simp
  with xs ys rest show ?thesis by blast
qed

lemmas example_defs = env0_def cfg0_def w_four_def w_five_def login_attempt_def window_rows_def
  failed_login_rows_def Minute_def



lemma w5_rows:
  "window_rows env0 cfg0 w_five (login_attempt 5 2 ''203.0.113.3'') = events w_five"
  by (simp add: example_defs)

lemma w5_sorted: "sort_key ev_Timestamp (events w_five) = events w_five"
  by (simp add: w_five_def login_attempt_def Minute_def)

lemma w5_ips_text: "ips_text (events w_five) = ''{203.0.113.1,203.0.113.1,203.0.113.2,203.0.113.1,203.0.113.3}''"
  unfolding ips_text_def w5_sorted
  by (simp add: w_five_def login_attempt_def pg_array_def pg_elem_def pg_needs_quote_def ToLower_def
      lower_char_def isSpace_def DQ_def)

lemma w5_ips_parse:
  "parseStringArray ''{203.0.113.1,203.0.113.1,203.0.113.2,203.0.113.1,203.0.113.3}'' =
     Returned [''203.0.113.1'', ''203.0.113.1'', ''203.0.113.2'', ''203.0.113.1'', ''203.0.113.3'']"
  by (simp add: parseStringArray_def slice_inner_def splitArrayString_def trimQuotes_def
      TrimSpace_def isSpace_def DQ_def Let_def)

lemma w5_ids_text: "ids_text env0 (events w_five) = ''{1,2,3,4,5}''"
  unfolding ids_text_def w5_sorted
  by (simp add: w_five_def login_attempt_def pg_array_def env0_def itoa_def itoa_nat.simps digit_char_def)

lemma w5_ids_parse: "parseUUIDArray env0 ''{1,2,3,4,5}'' = Returned [1, 2, 3, 4, 5]"
  by (simp add: parseUUIDArray_def slice_inner_def splitArrayString_def trimQuotes_def
      TrimSpace_def isSpace_def DQ_def Let_def env0_def List.map_filter_def)

text \<open>
  Claim C3, at a failing input. Five failed logins lie in the window, the first 10 minutes
  and the triggering one 2 minutes before the query. The evidence of the alert holds the
  count, the window and the threshold; under \<open>first_attempt\<close> it holds the timestamp of
  the triggering event, not that of the first attempt, and under \<open>ip_addresses\<close> one
  entry per counted attempt.
\<close>

theorem first_attempt_is_trigger_time:
  "\<exists>a. fst (FailedLoginRule_Evaluate env0 cfg0 w_five (login_attempt 5 2 ''203.0.113.3'')) =
          Returned ([a], None) \<and>
        map ev_Timestamp
          (sort_key ev_Timestamp (window_rows env0 cfg0 w_five (login_attempt 5 2 ''203.0.113.3''))) =
          [1700000000000000000 - 10 * Minute, 1700000000000000000 - 8 * Minute,
           1700000000000000000 - 5 * Minute, 1700000000000000000 - 4 * Minute,
           1700000000000000000 - 2 * Minute] \<and>
        al_Evidence a =
          [(''failed_attempts'', AInt 5), (''window_minutes'', AInt 15), (''threshold'', AInt 5),
           (''ip_addresses'', AStringList [''203.0.113.1'', ''203.0.113.1'', ''203.0.113.2'',
                                          ''203.0.113.1'', ''203.0.113.3'']),
           (''first_attempt'', ARFC3339 (1700000000000000000 - 2 * Minute))] \<and>
        al_EventRefs a = [1, 2, 3, 4, 5]"
proof -
  let ?ev = "login_attempt 5 2 ''203.0.113.3''"
  have h: "ev_EventType ?ev = ''auth.failed''" "ev_Actor ?ev \<noteq> []" "db_fault env0 (steps w_five) = None"
    "FailedLoginThreshold cfg0 \<le> int (length (window_rows env0 cfg0 w_five ?ev))"
    by (simp_all add: w5_rows) (simp_all add: example_defs env0_def)
  from Evaluate_alert[OF h] obtain a xs ys where
    a: "fst (FailedLoginRule_Evaluate env0 cfg0 w_five ?ev) = Returned ([a], None)"
    and xs: "parseUUIDArray env0 (ids_text env0 (window_rows env0 cfg0 w_five ?ev)) = Returned xs"
    and ys: "parseStringArray (ips_text (window_rows env0 cfg0 w_five ?ev)) = Returned ys"
    and refs: "al_EventRefs a = (if xs = [] then [ev_ID ?ev] else xs)"
    and ev: "al_Evidence a =
            [(''failed_attempts'', AInt (int (length (window_rows env0 cfg0 w_five ?ev)))),
             (''window_minutes'', AInt (FailedLoginWindowMin cfg0)),
             (''threshold'', AInt (FailedLoginThreshold cfg0)),
             (''ip_addresses'', AStringList (if ys = [] then [ev_IP ?ev] else ys)),
             (''first_attempt'', ARFC3339 (ev_Timestamp ?ev))]"
    by auto
  from xs have xs': "xs = [1, 2, 3, 4, 5]" by (simp add: w5_rows w5_ids_text w5_ids_parse)
  from ys have ys': "ys = [''203.0.113.1'', ''203.0.113.1'', ''203.0.113.2'', ''203.0.113.1'', ''203.0.113.3'']"
    by (simp add: w5_rows w5_ips_text w5_ips_parse)
  have ts: "map ev_Timestamp (sort_key ev_Timestamp (window_rows env0 cfg0 w_five ?ev)) =
          [1700000000000000000 - 10 * Minute, 1700000000000000000 - 8 * Minute,
           1700000000000000000 - 5 * Minute, 1700000000000000000 - 4 * Minute,
           1700000000000000000 - 2 * Minute]"
    unfolding w5_rows w5_sorted by (simp add: w_five_def login_attempt_def)
  have n: "int (length (window_rows env0 cfg0 w_five ?ev)) = 5" by (simp add: w5_rows) (simp add: w_five_def)
  from a refs ev xs' ys' ts n show ?thesis
    by (simp add: cfg0_def login_attempt_def)
qed

subsection \<open>What every emitted alert carries\<close>

lemma FailedLogin_emitted:
  assumes "FailedLoginRule_Evaluate e cfg w event = (Returned (found, err), w')"
    and "a \<in> set found"
  shows "al_Status a = AlertStatusOpen \<and> al_ID a = Suc (next_uuid w) \<and>
         next_uuid w' = Suc (next_uuid w) \<and> al_Severity a = SeverityHigh \<and>
         al_EventRefs a \<noteq> []"
proof (cases "ev_EventType event = ''auth.failed'' \<and> ev_Actor event \<noteq> []")
  case False
  with assms show ?thesis by (auto simp: FailedLoginRule_Evaluate_def split: if_splits)
next
  case True
  then have t: "ev_EventType event = ''auth.failed''" and ac: "ev_Actor event \<noteq> []" by simp_all
  show ?thesis
  proof (cases "db_fault e (steps w)")
    case (Some x)
    from Evaluate_query_fault[OF t ac Some] assms show ?thesis by simp
  next
    case None
    show ?thesis
    proof (cases "int (length (window_rows e cfg w event)) < FailedLoginThreshold cfg")
      case True
      from Evaluate_below[OF t ac None True] assms show ?thesis by simp
    next
      case False
      then have "FailedLoginThreshold cfg \<le> int (length (window_rows e cfg w event))" by simp
      from Evaluate_alert[OF t ac None this] assms show ?thesis by (auto split: if_splits)
    qed
  qed
qed

lemma Forbidden_emitted:
  assumes "ForbiddenResourceRule_Evaluate e w event = (Returned (found, err), w')"
    and "a \<in> set found"
  shows "al_Status a = AlertStatusOpen \<and> al_ID a = Suc (next_uuid w) \<and>
         next_uuid w' = Suc (next_uuid w) \<and> al_Severity a = SeverityCritical \<and>
         al_EventRefs a \<noteq> []"
  using assms
  by (auto simp: ForbiddenResourceRule_Evaluate_def uuid_New_def time_Now_def Let_def
      split: if_splits option.splits)

lemma APIKey_emitted:
  assumes "APIKeyCreationRule_Evaluate e w event = (Returned (found, err), w')"
    and "a \<in> set found"
  shows "al_Status a = AlertStatusOpen \<and> al_ID a = Suc (next_uuid w) \<and>
         next_uuid w' = Suc (next_uuid w) \<and> al_Severity a = SeverityHigh \<and>
         al_EventRefs a \<noteq> []"
  using assms
  by (auto simp: APIKeyCreationRule_Evaluate_def uuid_New_def time_Now_def Let_def
      split: if_splits option.splits)

lemma decide_fallback:
  assumes "FailedLoginRule_decide e cfg w event c ids ips = (Returned ([a], err), w')"
  shows "(parseUUIDArray e ids = Returned [] \<longrightarrow> al_EventRefs a = [ev_ID event]) \<and>
         (parseStringArray ips = Returned [] \<longrightarrow>
            map_of (al_Evidence a) ''ip_addresses'' = Some (AStringList [ev_IP event]))"
  using assms
  by (auto simp: FailedLoginRule_decide_def uuid_New_def time_Now_def Let_def
      split: if_splits outcome.splits)

text \<open>
  Claim C10. Every alert returned by one of the three registered rules has status OPEN,
  the identifier that \<open>uuid.New()\<close> draws in that call (not nil, and later than every
  identifier drawn before), a severity that is HIGH or CRITICAL, and a non-empty list of
  referenced events. In the failed-login rule, when the aggregated ids parse to the
  empty list the alert refers to the triggering event, and when the aggregated IPs parse
  to the empty list the evidence holds the IP of the triggering event.
\<close>

theorem emitted_alert_invariant:
  "(r \<in> set (registerDefaultRules e cfg) \<and>
    rule_Evaluate r w event = (Returned (found, err), w') \<and> a \<in> set found \<longrightarrow>
      al_Status a = AlertStatusOpen \<and>
      al_ID a = fst (uuid_New w) \<and> al_ID a \<noteq> uuid_Nil \<and> next_uuid w < al_ID a \<and>
      next_uuid w' = al_ID a \<and>
      (al_Severity a = SeverityHigh \<or> al_Severity a = SeverityCritical) \<and>
      al_EventRefs a \<noteq> []) \<and>
   (FailedLoginRule_decide e cfg w event c ids ips = (Returned ([a], err), w') \<and>
    parseUUIDArray e ids = Returned [] \<longrightarrow> al_EventRefs a = [ev_ID event]) \<and>
   (FailedLoginRule_decide e cfg w event c ids ips = (Returned ([a], err), w') \<and>
    parseStringArray ips = Returned [] \<longrightarrow>
      map_of (al_Evidence a) ''ip_addresses'' = Some (AStringList [ev_IP event]))"
proof (intro conjI impI)
  assume h: "r \<in> set (registerDefaultRules e cfg) \<and>
    rule_Evaluate r w event = (Returned (found, err), w') \<and> a \<in> set found"
  then have "al_Status a = AlertStatusOpen \<and> al_ID a = Suc (next_uuid w) \<and>
         next_uuid w' = Suc (next_uuid w) \<and>
         (al_Severity a = SeverityHigh \<or> al_Severity a = SeverityCritical) \<and>
         al_EventRefs a \<noteq> []"
    using FailedLogin_emitted[of e cfg w event found err w' a]
      Forbidden_emitted[of e w event found err w' a]
      APIKey_emitted[of e w event found err w' a]
    by (auto simp: registerDefaultRules_def NewFailedLoginRule_def NewForbiddenResourceRule_def
        NewAPIKeyCreationRule_def)
  then show "al_Status a = AlertStatusOpen" "al_ID a = fst (uuid_New w)" "al_ID a \<noteq> uuid_Nil"
    "next_uuid w < al_ID a" "next_uuid w' = al_ID a"
    "al_Severity a = SeverityHigh \<or> al_Severity a = SeverityCritical" "al_EventRefs a \<noteq> []"
    by (simp_all add: uuid_New_def uuid_Nil_def)
next
  assume "FailedLoginRule_decide e cfg w event c ids ips = (Returned ([a], err), w') \<and>
    parseUUIDArray e ids = Returned []"
  then show "al_EventRefs a = [ev_ID event]" using decide_fallback by blast
next
  assume "FailedLoginRule_decide e cfg w event c ids ips = (Returned ([a], err), w') \<and>
    parseStringArray ips = Returned []"
  then show "map_of (al_Evidence a) ''ip_addresses'' = Some (AStringList [ev_IP event])"
    using decide_fallback by blast
qed

theorem emitted_alert_invariant_witness:
  "\<exists>a w'. NewFailedLoginRule env0 cfg0 \<in> set (registerDefaultRules env0 cfg0) \<and>
      rule_Evaluate (NewFailedLoginRule env0 cfg0) w_five (login_attempt 5 2 ''203.0.113.3'') =
        (Returned ([a], None), w') \<and>
      al_Status a = ''OPEN'' \<and> al_ID a = 6 \<and> next_uuid w' = 6 \<and> al_Severity a = ''HIGH'' \<and>
      al_EventRefs a \<noteq> [] \<and>
      (\<exists>b w''. FailedLoginRule_decide env0 cfg0 w_five (login_attempt 5 2 ''203.0.113.3'') 5 [] [] =
          (Returned ([b], None), w'') \<and>
        parseUUIDArray env0 [] = Returned [] \<and> parseStringArray [] = Returned [] \<and>
        al_EventRefs b = [5] \<and>
        map_of (al_Evidence b) ''ip_addresses'' = Some (AStringList [''203.0.113.3'']))"
proof -
  let ?ev = "login_attempt 5 2 ''203.0.113.3''"
  have h: "ev_EventType ?ev = ''auth.failed''" "ev_Actor ?ev \<noteq> []" "db_fault env0 (steps w_five) = None"
    "FailedLoginThreshold cfg0 \<le> int (length (window_rows env0 cfg0 w_five ?ev))"
    by (simp_all add: w5_rows) (simp_all add: example_defs env0_def)
  from Evaluate_alert[OF h] obtain a w' where
    a: "FailedLoginRule_Evaluate env0 cfg0 w_five ?ev = (Returned ([a], None), w')"
    and sev: "al_Severity a = SeverityHigh" by blast
  have m: "NewFailedLoginRule env0 cfg0 \<in> set (registerDefaultRules env0 cfg0)"
    by (simp add: registerDefaultRules_def)
  from a have ra: "rule_Evaluate (NewFailedLoginRule env0 cfg0) w_five ?ev = (Returned ([a], None), w')"
    by (simp add: NewFailedLoginRule_def)
  from emitted_alert_invariant[of "NewFailedLoginRule env0 cfg0" env0 cfg0 w_five ?ev "[a]" None w' a]
    m ra
  have p: "al_Status a = AlertStatusOpen" "al_ID a = fst (uuid_New w_five)" "next_uuid w' = al_ID a"
    "al_EventRefs a \<noteq> []"
    by simp_all
  have c: "FailedLoginThreshold cfg0 \<le> 5" by (simp add: cfg0_def)
  from decide_alert[OF c parseUUIDArray_Nil parseStringArray_Nil, of env0 w_five ?ev]
  obtain b w'' where b: "FailedLoginRule_decide env0 cfg0 w_five ?ev 5 [] [] = (Returned ([b], None), w'')"
    by blast
  from emitted_alert_invariant[of _ env0 cfg0 w_five ?ev _ None w'' b 5 "[]" "[]"] b
  have q: "al_EventRefs b = [ev_ID ?ev]"
    "map_of (al_Evidence b) ''ip_addresses'' = Some (AStringList [ev_IP ?ev])"
    by (simp_all add: parseUUIDArray_Nil parseStringArray_Nil)
  from m ra p sev b q show ?thesis
    by (simp add: AlertStatusOpen_def SeverityHigh_def uuid_New_def w_five_def login_attempt_def
        parseUUIDArray_Nil parseStringArray_Nil)
qed

subsection \<open>The detection engine\<close>

















subsection \<open>The ingest cycle\<close>

lemma GetLast_world: "snd (GetLastEventTimestamp e w) = w\<lparr>steps := Suc (steps w)\<rparr>"
  by (simp add: GetLastEventTimestamp_def db_exec_def split: option.splits list.splits)

lemma FetchAudit_world: "snd (FetchAuditEvents e c w since) = w\<lparr>steps := Suc (steps w)\<rparr>"
  by (simp add: FetchAuditEvents_def time_Now_def)

lemma FetchAuth_world: "snd (FetchAuthenticationEvents e c w since) = w\<lparr>steps := Suc (steps w)\<rparr>"
  by (simp add: FetchAuthenticationEvents_def time_Now_def)

lemma Ingest_stages:
  "snd (Ingest_audit e i w) = w\<lparr>steps := Suc (Suc (steps w))\<rparr>"
  "snd (Ingest_auth e i w) = w\<lparr>steps := Suc (Suc (Suc (steps w)))\<rparr>"
  by (simp_all add: Ingest_audit_def Ingest_auth_def GetLast_world FetchAudit_world FetchAuth_world)

lemma Ingest_unfold:
  "Ingest e i w =
     (case snd (fst (Ingest_audit e i w)) of
        Some x \<Rightarrow> (Returned (Some (''failed to fetch audit events: '' @ x)), snd (Ingest_audit e i w), [])
      | None \<Rightarrow>
          (case snd (fst (Ingest_auth e i w)) of
             Some x \<Rightarrow> (Returned (Some (''failed to fetch authentication events: '' @ x)),
                        snd (Ingest_auth e i w), [])
           | None \<Rightarrow>
               if fst (fst (Ingest_audit e i w)) @ fst (fst (Ingest_auth e i w)) = []
               then (Returned None, snd (Ingest_auth e i w), [])
               else (case Ingest_loop e i (fst (fst (Ingest_audit e i w)) @ fst (fst (Ingest_auth e i w)))
                            (snd (Ingest_auth e i w)) of
                       (Panicked, w4, processed) \<Rightarrow> (Panicked, w4, processed)
                     | (Returned u, w4, processed) \<Rightarrow> (Returned None, w4, processed))))"
  by (simp add: Ingest_def Ingest_audit_def Ingest_auth_def Ingest_since_def split_def Let_def
      split: option.splits)


text \<open>
  Claim C6. When the audit fetch returns an error, or the authentication fetch does,
  \<open>Ingest\<close> returns an error for the cycle, the three tables are as they were, no
  identifier was drawn and \<open>ProcessEvent\<close> was not called. When both fetches succeed
  and return no event, \<open>Ingest\<close> returns without an error, with the same absence of
  effects.
\<close>

theorem ingest_fetch_failure_atomic:
  "(snd (fst (Ingest_audit e i w)) = Some x \<longrightarrow>
      fst (Ingest e i w) = Returned (Some (''failed to fetch audit events: '' @ x)) \<and>
      same_tables w (fst (snd (Ingest e i w))) \<and> snd (snd (Ingest e i w)) = []) \<and>
   (snd (fst (Ingest_audit e i w)) = None \<and> snd (fst (Ingest_auth e i w)) = Some x \<longrightarrow>
      fst (Ingest e i w) = Returned (Some (''failed to fetch authentication events: '' @ x)) \<and>
      same_tables w (fst (snd (Ingest e i w))) \<and> snd (snd (Ingest e i w)) = []) \<and>
   (snd (fst (Ingest_audit e i w)) = None \<and> snd (fst (Ingest_auth e i w)) = None \<and>
    fst (fst (Ingest_audit e i w)) @ fst (fst (Ingest_auth e i w)) = [] \<longrightarrow>
      fst (Ingest e i w) = Returned None \<and>
      same_tables w (fst (snd (Ingest e i w))) \<and> snd (snd (Ingest e i w)) = [])"
  by (simp add: Ingest_unfold Ingest_stages same_tables_def)

theorem ingest_fetch_failure_atomic_witness:
  "snd (fst (Ingest_audit env_net_down live_ingestor w_seen)) = Some ''timeout'' \<and>
   fst (Ingest env_net_down live_ingestor w_seen) =
     Returned (Some ''failed to fetch audit events: timeout'') \<and>
   same_tables w_seen (fst (snd (Ingest env_net_down live_ingestor w_seen))) \<and>
   snd (snd (Ingest env_net_down live_ingestor w_seen)) = [] \<and>
   snd (fst (Ingest_audit env_auth_down live_ingestor w_seen)) = None \<and>
   snd (fst (Ingest_auth env_auth_down live_ingestor w_seen)) = Some ''timeout'' \<and>
   fst (Ingest env_auth_down live_ingestor w_seen) =
     Returned (Some ''failed to fetch authentication events: timeout'') \<and>
   same_tables w_seen (fst (snd (Ingest env_auth_down live_ingestor w_seen))) \<and>
   snd (snd (Ingest env_auth_down live_ingestor w_seen)) = [] \<and>
   fst (fst (Ingest_audit env0 live_ingestor w_seen)) @ fst (fst (Ingest_auth env0 live_ingestor w_seen)) = [] \<and>
   fst (Ingest env0 live_ingestor w_seen) = Returned None \<and>
   same_tables w_seen (fst (snd (Ingest env0 live_ingestor w_seen))) \<and>
   snd (snd (Ingest env0 live_ingestor w_seen)) = []"
proof -
  have a1: "snd (fst (Ingest_audit env_net_down live_ingestor w_seen)) = Some ''timeout''"
    by (simp add: Ingest_audit_def FetchAuditEvents_def live_ingestor_def env_net_down_def)
  have a2: "snd (fst (Ingest_audit env_auth_down live_ingestor w_seen)) = None"
    by (simp add: Ingest_audit_def FetchAuditEvents_def live_ingestor_def env_auth_down_def)
  have b2: "snd (fst (Ingest_auth env_auth_down live_ingestor w_seen)) = Some ''timeout''"
    by (simp add: Ingest_auth_def FetchAuthenticationEvents_def live_ingestor_def env_auth_down_def)
  have a3: "snd (fst (Ingest_audit env0 live_ingestor w_seen)) = None"
    "fst (fst (Ingest_audit env0 live_ingestor w_seen)) = []"
    by (simp_all add: Ingest_audit_def FetchAuditEvents_def live_ingestor_def env0_def)
  have b3: "snd (fst (Ingest_auth env0 live_ingestor w_seen)) = None"
    "fst (fst (Ingest_auth env0 live_ingestor w_seen)) = []"
    by (simp_all add: Ingest_auth_def FetchAuthenticationEvents_def live_ingestor_def env0_def)
  note t1 = ingest_fetch_failure_atomic[of env_net_down live_ingestor w_seen "''timeout''"]
  note t2 = ingest_fetch_failure_atomic[of env_auth_down live_ingestor w_seen "''timeout''"]
  note t3 = ingest_fetch_failure_atomic[of env0 live_ingestor w_seen]
  from t1 a1 have r1: "fst (Ingest env_net_down live_ingestor w_seen) =
     Returned (Some ''failed to fetch audit events: timeout'')"
    "same_tables w_seen (fst (snd (Ingest env_net_down live_ingestor w_seen)))"
    "snd (snd (Ingest env_net_down live_ingestor w_seen)) = []" by simp_all
  from t2 a2 b2 have r2: "fst (Ingest env_auth_down live_ingestor w_seen) =
     Returned (Some ''failed to fetch authentication events: timeout'')"
    "same_tables w_seen (fst (snd (Ingest env_auth_down live_ingestor w_seen)))"
    "snd (snd (Ingest env_auth_down live_ingestor w_seen)) = []" by simp_all
  from t3 a3 b3 have r3: "fst (Ingest env0 live_ingestor w_seen) = Returned None"
    "same_tables w_seen (fst (snd (Ingest env0 live_ingestor w_seen)))"
    "snd (snd (Ingest env0 live_ingestor w_seen)) = []" by simp_all
  from a1 a2 b2 a3 b3 r1 r2 r3 show ?thesis by simp
qed

subsection \<open>Deduplication by provider event id\<close>

lemma StoreAlert_events: "events (snd (StoreAlert e w a)) = events w"
  by (simp add: StoreAlert_def db_exec_def uuid_New_def time_Now_def split_def Let_def
      split: option.splits)

lemma storeAlerts_events: "events (fst (storeAlerts e found w)) = events w"
proof (induction found arbitrary: w)
  case Nil
  show ?case by simp
next
  case (Cons a rest)
  have "events (fst (storeAlerts e rest (snd (StoreAlert e w a)))) = events (snd (StoreAlert e w a))"
    by (rule Cons.IH)
  then show ?case by (simp add: split_def Let_def StoreAlert_events)
qed

lemma ProcessEvent_rules_events:
  assumes "\<forall>r\<in>set rules. \<forall>v ev. events (snd (rule_Evaluate r v ev)) = events v"
  shows "events (fst (snd (ProcessEvent_rules e rules event w))) = events w"
  using assms
proof (induction rules arbitrary: w)
  case Nil
  show ?case by simp
next
  case (Cons rule rest)
  then have k: "\<And>v ev. events (snd (rule_Evaluate rule v ev)) = events v"
    and ih: "\<And>v. events (fst (snd (ProcessEvent_rules e rest event v))) = events v"
    by simp_all
  obtain out w1 where ev: "rule_Evaluate rule w event = (out, w1)" by (cases "rule_Evaluate rule w event")
  with k[of w event] have w1: "events w1 = events w" by simp
  show ?case
  proof (cases "rule_IsActive rule")
    case False
    then show ?thesis by (simp add: ih)
  next
    case True
    show ?thesis
    proof (cases out)
      case Panicked
      with True ev w1 show ?thesis by simp
    next
      case (Returned p)
      obtain found err where p: "p = (found, err)" by (cases p)
      show ?thesis
      proof (cases err)
        case (Some y)
        with True ev Returned p w1 show ?thesis by (simp add: split_def Let_def ih)
      next
        case None
        with True ev Returned p w1 show ?thesis
          by (simp add: split_def Let_def ih storeAlerts_events)
      qed
    qed
  qed
qed

lemma EventExists_result:
  "snd (EventExists e w eid) = w\<lparr>steps := Suc (steps w)\<rparr> \<and>
   (snd (fst (EventExists e w eid)) = None \<longrightarrow>
      fst (fst (EventExists e w eid)) = (eid \<in> provider_ids (events w)))"
proof -
  have "(0 < length (filter (\<lambda>r. ev_EventID r = eid) (events w))) = (eid \<in> provider_ids (events w))"
    by (auto simp: provider_ids_def filter_empty_conv)
  then show ?thesis
    by (simp add: EventExists_def db_exec_def split_def Let_def split: option.splits)
qed

lemma StoreEvent_result:
  "ev_EventID (fst (fst (StoreEvent e w ev))) = ev_EventID ev \<and>
   (snd (fst (StoreEvent e w ev)) \<noteq> None \<longrightarrow> events (snd (StoreEvent e w ev)) = events w) \<and>
   (snd (fst (StoreEvent e w ev)) = None \<longrightarrow>
      events (snd (StoreEvent e w ev)) =
        (if ev_EventID ev \<in> provider_ids (events w) then events w
         else events w @ [fst (fst (StoreEvent e w ev))]))"
proof -
  have "list_ex (\<lambda>r. ev_EventID r = ev_EventID ev) (events w) = (ev_EventID ev \<in> provider_ids (events w))"
    unfolding provider_ids_def list_ex_iff set_map image_iff by metis
  then show ?thesis
    by (simp add: StoreEvent_def db_exec_def uuid_New_def time_Now_def split_def Let_def
        split: option.splits)
qed


lemma StoreEvent_noop:
  assumes "ev_EventID ev \<in> provider_ids (events w)"
  shows "events (snd (StoreEvent e w ev)) = events w"
  using StoreEvent_result[of e w ev] assms by (cases "snd (fst (StoreEvent e w ev))") simp_all

lemma StoreEvent_silent:
  assumes "marshal_error e (ev_Raw ev) = None" and "\<forall>n. db_fault e n = None"
  shows "snd (fst (StoreEvent e w ev)) = None"
  using assms
  by (simp add: StoreEvent_def db_exec_def uuid_New_def time_Now_def split_def Let_def)

lemma Processor_events:
  assumes "\<forall>r\<in>set (eng_rules p). \<forall>v ev. events (snd (rule_Evaluate r v ev)) = events v"
  shows "events (fst (snd (Processor_ProcessEvent e p w event))) = events w"
  using ProcessEvent_rules_events[OF assms] by (simp add: Processor_ProcessEvent_def ProcessEvent_def)

lemma loop_inv_same: "events w1 = events w \<Longrightarrow> loop_inv w1 w' processed \<Longrightarrow> loop_inv w w' processed"
  by (simp add: loop_inv_def)

lemma loop_inv_refl: "events w' = events w \<Longrightarrow> loop_inv w w' []"
  by (simp add: loop_inv_def provider_ids_def)

lemma loop_inv_step:
  assumes new: "ev_EventID s \<notin> provider_ids (events w)"
    and w1: "events w1 = events w @ [s]"
    and inv: "loop_inv w1 w' processed"
  shows "loop_inv w w' processed" and "loop_inv w w' (s # processed)"
proof -
  from inv obtain added where a: "events w' = events w1 @ added" "distinct (map ev_EventID added)"
    "provider_ids added \<inter> provider_ids (events w1) = {}"
    "provider_ids processed \<subseteq> provider_ids added" "distinct (map ev_EventID processed)"
    by (auto simp: loop_inv_def)
  from a(3) w1 have s: "ev_EventID s \<notin> provider_ids added"
    and d: "provider_ids added \<inter> provider_ids (events w) = {}"
    by (auto simp: provider_ids_def)
  have e: "events w' = events w @ (s # added)" using a(1) w1 by simp
  have dd: "distinct (map ev_EventID (s # added))" using a(2) s by (simp add: provider_ids_def)
  have dj: "provider_ids (s # added) \<inter> provider_ids (events w) = {}"
    using d new by (auto simp: provider_ids_def)
  have sub1: "provider_ids processed \<subseteq> provider_ids (s # added)"
    using a(4) by (auto simp: provider_ids_def)
  have sub2: "provider_ids (s # processed) \<subseteq> provider_ids (s # added)"
    using a(4) by (auto simp: provider_ids_def)
  have dp: "distinct (map ev_EventID (s # processed))"
    using a(4,5) s by (auto simp: provider_ids_def)
  from e dd dj sub1 a(5) show "loop_inv w w' processed" unfolding loop_inv_def by blast
  from e dd dj sub2 dp show "loop_inv w w' (s # processed)" unfolding loop_inv_def by blast
qed


lemma toModelEvent_id: "ev_EventID (toModelEvent sev u t) = ae_ID sev"
  by (simp add: toModelEvent_def Let_def)

lemma Ingest_loop_inv:
  assumes keep: "rules_keep_events i"
  shows "loop_inv w (fst (snd (Ingest_loop e i feed w))) (snd (snd (Ingest_loop e i feed w)))"
proof (induction feed arbitrary: w)
  case Nil
  show ?case by (simp add: loop_inv_refl)
next
  case (Cons sev rest)
  note IH = Cons.IH
  obtain ex err w1 where x: "EventExists e w (ae_ID sev) = ((ex, err), w1)"
    by (metis prod.collapse)
  from EventExists_result[of e w "ae_ID sev"] x
  have w1: "events w1 = events w" and exv: "err = None \<Longrightarrow> ex = (ae_ID sev \<in> provider_ids (events w))"
    by simp_all
  show ?case
  proof (cases "err \<noteq> None \<or> ex")
    case True
    with x have "Ingest_loop e i (sev # rest) w = Ingest_loop e i rest w1" by auto
    with loop_inv_same[OF w1 IH[of w1]] show ?thesis by simp
  next
    case False
    then have en: "err = None" and nex: "\<not> ex" by simp_all
    from exv[OF en] nex have new: "ae_ID sev \<notin> provider_ids (events w)" by simp
    obtain u w2 where u: "uuid_New w1 = (u, w2)" by (metis prod.collapse)
    obtain t w3 where t: "time_Now e w2 = (t, w3)" by (metis prod.collapse)
    obtain stored serr w4 where st: "StoreEvent e w3 (toModelEvent sev u t) = ((stored, serr), w4)"
      by (metis prod.collapse)
    from u t w1 have w3: "events w3 = events w" by (auto simp: uuid_New_def time_Now_def)
    from StoreEvent_result[of e w3 "toModelEvent sev u t"] st w3 new
    have sid: "ev_EventID stored = ae_ID sev"
      and fail: "serr \<noteq> None \<Longrightarrow> events w4 = events w"
      and ok: "serr = None \<Longrightarrow> events w4 = events w @ [stored]"
      by (simp_all add: toModelEvent_id)
    show ?thesis
    proof (cases "serr \<noteq> None")
      case True
      with x en nex u t st have "Ingest_loop e i (sev # rest) w = Ingest_loop e i rest w4" by auto
      with loop_inv_same[OF fail[OF True] IH[of w4]] show ?thesis by simp
    next
      case False
      then have sn: "serr = None" by simp
      from new sid have new': "ev_EventID stored \<notin> provider_ids (events w)" by simp
      show ?thesis
      proof (cases "ing_processor i")
        case None
        with x en nex u t st sn have "Ingest_loop e i (sev # rest) w = Ingest_loop e i rest w4" by simp
        with loop_inv_step(1)[OF new' ok[OF sn] IH[of w4]] show ?thesis by simp
      next
        case (Some p)
        with keep have kp: "\<forall>r\<in>set (eng_rules p). \<forall>v ev. events (snd (rule_Evaluate r v ev)) = events v"
          by (simp add: rules_keep_events_def)
        obtain pres w5 tr where pe: "Processor_ProcessEvent e p w4 stored = (pres, w5, tr)"
          by (metis prod.collapse)
        from Processor_events[OF kp, of e w4 stored] pe ok[OF sn]
        have w5: "events w5 = events w @ [stored]" by simp
        show ?thesis
        proof (cases pres)
          case Panicked
          with x en nex u t st sn Some pe
          have r: "Ingest_loop e i (sev # rest) w = (Panicked, w5, [stored])" by simp
          have "loop_inv w5 w5 []" by (simp add: loop_inv_refl)
          from loop_inv_step(2)[OF new' w5 this] r show ?thesis by simp
        next
          case (Returned perr)
          obtain res w6 processed where l: "Ingest_loop e i rest w5 = (res, w6, processed)"
            by (metis prod.collapse)
          with x en nex u t st sn Some pe Returned
          have r: "Ingest_loop e i (sev # rest) w = (res, w6, stored # processed)" by simp
          from IH[of w5] l have "loop_inv w5 w6 processed" by simp
          from loop_inv_step(2)[OF new' w5 this] r show ?thesis by simp
        qed
      qed
    qed
  qed
qed

lemma Ingest_inv:
  assumes "rules_keep_events i"
  shows "loop_inv w (fst (snd (Ingest e i w))) (snd (snd (Ingest e i w)))"
proof -
  let ?w3 = "snd (Ingest_auth e i w)"
  let ?feed = "fst (fst (Ingest_audit e i w)) @ fst (fst (Ingest_auth e i w))"
  have e2: "events (snd (Ingest_audit e i w)) = events w" and e3: "events ?w3 = events w"
    by (simp_all add: Ingest_stages)
  obtain res w4 processed where l: "Ingest_loop e i ?feed ?w3 = (res, w4, processed)"
    by (metis prod.collapse)
  from Ingest_loop_inv[OF assms, of ?w3 e ?feed] l have "loop_inv ?w3 w4 processed" by simp
  from loop_inv_same[OF e3 this] have li: "loop_inv w w4 processed" .
  show ?thesis
    using l li e2 e3
    by (cases res) (auto simp: Ingest_unfold loop_inv_refl split: option.splits)
qed


lemma FailedLogin_keeps_events: "events (snd (FailedLoginRule_Evaluate e cfg v ev)) = events v"
  by (simp add: FailedLoginRule_Evaluate_def FailedLoginRule_decide_def query_failed_logins_def
      db_exec_def uuid_New_def time_Now_def split_def Let_def
      split: option.splits outcome.splits)

lemma Forbidden_keeps_events: "events (snd (ForbiddenResourceRule_Evaluate e v ev)) = events v"
  by (simp add: ForbiddenResourceRule_Evaluate_def uuid_New_def time_Now_def split_def Let_def
      split: option.splits)

lemma APIKey_keeps_events: "events (snd (APIKeyCreationRule_Evaluate e v ev)) = events v"
  by (simp add: APIKeyCreationRule_Evaluate_def uuid_New_def time_Now_def split_def Let_def)

lemma default_engine_keeps_events:
  "ing_processor i = Some (NewEngine e cfg) \<Longrightarrow> rules_keep_events i"
  by (simp add: rules_keep_events_def NewEngine_def registerDefaultRules_def
      NewFailedLoginRule_def NewForbiddenResourceRule_def NewAPIKeyCreationRule_def
      FailedLogin_keeps_events Forbidden_keeps_events APIKey_keeps_events)

lemma loop_inv_old_ids:
  assumes "loop_inv w w' processed" and "eid \<in> provider_ids (events w)"
  shows "filter (\<lambda>r. ev_EventID r = eid) (events w') = filter (\<lambda>r. ev_EventID r = eid) (events w)"
    and "eid \<notin> provider_ids processed"
proof -
  from assms(1) obtain added where a: "events w' = events w @ added"
    "provider_ids added \<inter> provider_ids (events w) = {}" "provider_ids processed \<subseteq> provider_ids added"
    by (auto simp: loop_inv_def)
  from a(2) assms(2) have n: "eid \<notin> provider_ids added" by auto
  then have "filter (\<lambda>r. ev_EventID r = eid) added = []"
    by (auto simp: provider_ids_def filter_empty_conv)
  with a(1) show "filter (\<lambda>r. ev_EventID r = eid) (events w') = filter (\<lambda>r. ev_EventID r = eid) (events w)"
    by simp
  from n a(3) show "eid \<notin> provider_ids processed" by auto
qed

lemma loop_inv_distinct:
  assumes "loop_inv w w' processed"
  shows "distinct (map ev_EventID processed)"
    and "distinct (map ev_EventID (events w)) \<Longrightarrow> distinct (map ev_EventID (events w'))"
proof -
  from assms obtain added where a: "events w' = events w @ added" "distinct (map ev_EventID added)"
    "provider_ids added \<inter> provider_ids (events w) = {}" "distinct (map ev_EventID processed)"
    by (auto simp: loop_inv_def)
  from a(4) show "distinct (map ev_EventID processed)" .
  assume d: "distinct (map ev_EventID (events w))"
  from a(3) have "set (map ev_EventID (events w)) \<inter> set (map ev_EventID added) = {}"
    unfolding provider_ids_def by blast
  with a(1,2) d show "distinct (map ev_EventID (events w'))" by simp
qed

text \<open>
  Claim C1. For an ingestor whose rules leave the events table alone (the registered
  rules do), and whatever the two feeds hold: a provider event id that is in the store
  when \<open>Ingest\<close> starts has the same rows after it, and no event of that id is handed to
  \<open>ProcessEvent\<close>; no id is handed to \<open>ProcessEvent\<close> twice in a cycle, and provider ids
  that were unique in the store stay unique. \<open>StoreEvent\<close> on an id that is present
  leaves the table as it is, and returns no error unless marshalling or the database
  fails.
\<close>

theorem reingestion_idempotent:
  assumes "rules_keep_events i"
  shows "(eid \<in> provider_ids (events w) \<longrightarrow>
            filter (\<lambda>r. ev_EventID r = eid) (events (fst (snd (Ingest e i w)))) =
              filter (\<lambda>r. ev_EventID r = eid) (events w) \<and>
            eid \<notin> provider_ids (snd (snd (Ingest e i w)))) \<and>
         distinct (map ev_EventID (snd (snd (Ingest e i w)))) \<and>
         (distinct (map ev_EventID (events w)) \<longrightarrow>
            distinct (map ev_EventID (events (fst (snd (Ingest e i w)))))) \<and>
         (ev_EventID ev \<in> provider_ids (events w) \<longrightarrow>
            events (snd (StoreEvent e w ev)) = events w) \<and>
         (marshal_error e (ev_Raw ev) = None \<and> (\<forall>n. db_fault e n = None) \<longrightarrow>
            snd (fst (StoreEvent e w ev)) = None)"
  using loop_inv_old_ids[OF Ingest_inv[OF assms]] loop_inv_distinct[OF Ingest_inv[OF assms]]
    StoreEvent_noop StoreEvent_silent
  by blast

lemma mock_feed_has_seen_id:
  "''evt_mock_1700000000_005'' \<in> set (map ae_ID (fst (fst (Ingest_audit env0 mock_ingestor w_seen))))"
  by (simp add: Ingest_audit_def Ingest_since_def GetLastEventTimestamp_def db_exec_def
      FetchAuditEvents_def time_Now_def mockEvents_def mock_list_def mock_ingestor_def
      env0_def w_seen_def seen_event_def Minute_def itoa_def itoa_nat.simps digit_char_def Let_def)

theorem reingestion_idempotent_witness:
  "rules_keep_events mock_ingestor \<and>
   ''evt_mock_1700000000_005'' \<in> provider_ids (events w_seen) \<and>
   ''evt_mock_1700000000_005'' \<in> set (map ae_ID (fst (fst (Ingest_audit env0 mock_ingestor w_seen)))) \<and>
   filter (\<lambda>r. ev_EventID r = ''evt_mock_1700000000_005'')
     (events (fst (snd (Ingest env0 mock_ingestor w_seen)))) = [seen_event] \<and>
   ''evt_mock_1700000000_005'' \<notin> provider_ids (snd (snd (Ingest env0 mock_ingestor w_seen))) \<and>
   distinct (map ev_EventID (events (fst (snd (Ingest env0 mock_ingestor w_seen))))) \<and>
   events (snd (StoreEvent env0 w_seen (seen_event\<lparr>ev_ID := 9\<rparr>))) = [seen_event] \<and>
   snd (fst (StoreEvent env0 w_seen (seen_event\<lparr>ev_ID := 9\<rparr>))) = None"
proof -
  have k: "rules_keep_events mock_ingestor"
    by (rule default_engine_keeps_events[of _ env0 cfg0]) (simp add: mock_ingestor_def)
  have m: "''evt_mock_1700000000_005'' \<in> provider_ids (events w_seen)"
    by (simp add: provider_ids_def w_seen_def seen_event_def)
  have d: "distinct (map ev_EventID (events w_seen))" by (simp add: w_seen_def)
  have i: "ev_EventID (seen_event\<lparr>ev_ID := 9\<rparr>) \<in> provider_ids (events w_seen)"
    by (simp add: provider_ids_def w_seen_def seen_event_def)
  have f: "marshal_error env0 (ev_Raw (seen_event\<lparr>ev_ID := 9\<rparr>)) = None \<and> (\<forall>n. db_fault env0 n = None)"
    by (simp add: env0_def)
  have s: "filter (\<lambda>r. ev_EventID r = ''evt_mock_1700000000_005'') (events w_seen) = [seen_event]"
    "events w_seen = [seen_event]"
    by (simp_all add: w_seen_def seen_event_def)
  from reingestion_idempotent[OF k, of "''evt_mock_1700000000_005''" w_seen env0 "seen_event\<lparr>ev_ID := 9\<rparr>"]
    m d i f s mock_feed_has_seen_id k
  show ?thesis by simp
qed

end
